theory Spec2Isabelle
  imports Complex_Main
begin

section \<open>Errors\<close>

text \<open>
  Every way the C++ leaves a function other than by returning is a value:
  \<^item> \<open>libmesh_error msg\<close>: \<^verbatim>\<open>libmesh_error_msg(msg)\<close>, and the older \<^verbatim>\<open>error()\<close> macro
    (with the empty message);
  \<^item> \<open>petsc_error ierr\<close>: \<^verbatim>\<open>LIBMESH_CHKERR(ierr)\<close> and \<^verbatim>\<open>CHKERRABORT(comm, ierr)\<close> on a
    non-zero return code of the engine;
  \<^item> \<open>assertion_failed\<close>: a failed \<^verbatim>\<open>assert\<close> (assertions are modelled as compiled in);
  \<^item> \<open>out_of_bounds\<close>: a read or write past the end of a C array;
  \<^item> \<open>no_return\<close>: a function body that the preprocessor left without a \<^verbatim>\<open>return\<close>;
  \<^item> \<open>null_dereference\<close>: a call through a null function pointer.
\<close>

datatype error =
    libmesh_error string
  | petsc_error int
  | assertion_failed
  | out_of_bounds
  | no_return
  | null_dereference

text \<open>
  Sequencing: the first error ends the run. The kind of error is left open, so that an
  error can be given with the state it was raised in.
\<close>

definition bind_e :: "'err + 'a \<Rightarrow> ('a \<Rightarrow> 'err + 'b) \<Rightarrow> 'err + 'b" where
  "bind_e m f = (case m of Inl e \<Rightarrow> Inl e | Inr x \<Rightarrow> f x)"

section \<open>The fixed-dimension vector \<^verbatim>\<open>TypeVector<Real>\<close> (type\_vector.h)\<close>

text \<open>
  \<^verbatim>\<open>T _coords[DIM]\<close> is a C array of exactly \<open>DIM\<close> scalars; \<open>DIM\<close> is a
  preprocessor constant defined outside the file, so every operation takes it as a
  parameter. \<open>Real\<close> is modelled by the reals. The array is a list, and
  \<open>well_formed DIM v\<close> is the array type's guarantee that it has \<open>DIM\<close> entries.
\<close>

record TypeVector =
  coords :: "real list"

definition well_formed :: "nat \<Rightarrow> TypeVector \<Rightarrow> bool" where
  "well_formed DIM v = (length (coords v) = DIM)"

text \<open>The constructor, lines 1062-1075: \<open>y\<close> is stored when \<open>DIM > 1\<close>, \<open>z\<close> when \<open>DIM = 3\<close>.\<close>

definition TypeVector_ctor :: "nat \<Rightarrow> real \<Rightarrow> real \<Rightarrow> real \<Rightarrow> TypeVector" where
  "TypeVector_ctor DIM x y z =
     \<lparr>coords = [x] @ (if DIM > 1 then [y] @ (if DIM = 3 then [z] else []) else [])\<rparr>"

text \<open>Reading \<^verbatim>\<open>_coords[i]\<close>: past the end of the array the read is an error of the model.\<close>

definition array_read :: "real list \<Rightarrow> nat \<Rightarrow> error + real" where
  "array_read xs i = (if i < length xs then Inr (xs ! i) else Inl out_of_bounds)"

text \<open>
  \<^verbatim>\<open>T operator () (const unsigned int i) const\<close>, lines 1108-1122:
  \<^verbatim>\<open>assert (i<3); #if DIM < 3  if (i > (DIM-1)) return 0.;  #endif  return _coords[i];\<close>
\<close>

definition get_const :: "nat \<Rightarrow> TypeVector \<Rightarrow> nat \<Rightarrow> error + real" where
  "get_const DIM v i =
     (if \<not> i < 3 then Inl assertion_failed
      else if DIM < 3 \<and> i > DIM - 1 then Inr 0
      else array_read (coords v) i)"

text \<open>
  \<^verbatim>\<open>T & operator () (const unsigned int i)\<close>, lines 1126-1146:
  \<^verbatim>\<open>#if DIM < 3  if (i >= DIM) error();  #endif  assert (i<DIM);  return _coords[i];\<close>
  The reference returned is modelled by the index of the slot it refers to.
\<close>

definition get_ref :: "nat \<Rightarrow> TypeVector \<Rightarrow> nat \<Rightarrow> error + nat" where
  "get_ref DIM v i =
     (if DIM < 3 \<and> i \<ge> DIM then Inl (libmesh_error [])
      else if \<not> i < DIM then Inl assertion_failed
      else if i < length (coords v) then Inr i
      else Inl out_of_bounds)"

text \<open>
  \<^verbatim>\<open>bool TypeVector<Real>::operator == (const TypeVector<Real>& rhs) const\<close>, lines
  1496-1518: one \<^verbatim>\<open>#if DIM == n\<close> block per dimension, each its own formula. The macro
  \<open>TOLERANCE\<close> is defined outside the file and is a parameter.
\<close>

definition operator_eq :: "nat \<Rightarrow> real \<Rightarrow> TypeVector \<Rightarrow> TypeVector \<Rightarrow> error + bool" where
  "operator_eq DIM TOLERANCE v rhs =
     (if DIM = 1 then
        Inr (\<bar>coords v ! 0 - coords rhs ! 0\<bar> < TOLERANCE)
      else if DIM = 2 then
        Inr ((\<bar>coords v ! 0 - coords rhs ! 0\<bar> +
              \<bar>coords v ! 1 - coords rhs ! 1\<bar>) < 2 * TOLERANCE)
      else if DIM = 3 then
        Inr ((\<bar>coords v ! 0 - coords rhs ! 0\<bar> +
              \<bar>coords v ! 1 - coords rhs ! 1\<bar> +
              \<bar>coords v ! 2 - coords rhs ! 2\<bar>) < 3 * TOLERANCE)
      else Inl no_return)"

text \<open>\<^verbatim>\<open>operator !=\<close>, lines 1522-1527: \<^verbatim>\<open>return (!(*this == rhs));\<close>\<close>

definition operator_ne :: "nat \<Rightarrow> real \<Rightarrow> TypeVector \<Rightarrow> TypeVector \<Rightarrow> error + bool" where
  "operator_ne DIM TOLERANCE v rhs =
     bind_e (operator_eq DIM TOLERANCE v rhs) (\<lambda>r. Inr (\<not> r))"

text \<open>
  The specification's closed form of the comparison: the sum over all \<open>DIM\<close>
  coordinates of the absolute differences, against \<open>DIM\<close> times the tolerance.
\<close>

definition spec_close :: "nat \<Rightarrow> real \<Rightarrow> TypeVector \<Rightarrow> TypeVector \<Rightarrow> bool" where
  "spec_close DIM TOLERANCE v rhs =
     ((\<Sum>i<DIM. \<bar>coords v ! i - coords rhs ! i\<bar>) < real DIM * TOLERANCE)"

section \<open>The PETSc objects the adapter handles\<close>

text \<open>
  PETSc and the rest of libMesh are outside the file. What the adapter does to them is
  modelled on an explicit store: a \<^verbatim>\<open>Vec\<close> or \<^verbatim>\<open>Mat\<close> is a handle, and the store maps a
  handle to the numbers it holds (real scalars, exact arithmetic, one process).
  \<open>PetscVector\<close> and \<open>PetscMatrix\<close> are libMesh's wrapper objects around a handle.
\<close>

type_synonym Vec = nat
type_synonym Mat = nat
type_synonym PetscErrorCode = int

record storage =
  vecs :: "Vec \<Rightarrow> real list"
  mats :: "Mat \<Rightarrow> real list list"

record PetscVector =
  vec :: Vec
  destroy_vec_on_exit :: bool

text \<open>
  DofMap is a collaborator: \<open>n_constrained_dofs\<close> is its count of constrained degrees of
  freedom and \<open>required_values\<close> is what enforcing the constraints exactly does to the
  numbers of a vector.
\<close>

record DofMap =
  n_constrained_dofs :: nat
  required_values :: "real list \<Rightarrow> real list"

record PetscMatrix =
  mat :: Mat
  attached_dof_map :: "DofMap option"

record NonlinearImplicitSystem =
  solution :: PetscVector
  current_local_solution :: PetscVector
  dof_map :: DofMap

text \<open>
  The computation forms a user can register. A plain function and the method of a
  polymorphic object have the same shape: they read the system and write vectors and
  matrices of the store. The two flags of a post-check are passed in and returned.
  A form is given the system by reference in the C++; here it changes numbers only: it
  does not change the DofMap, the solver, or which buffers the system's vectors hold.
  A provider of a subspace names the vectors of its basis and changes nothing.
\<close>

type_synonym residual_fn =
  "PetscVector \<Rightarrow> PetscVector \<Rightarrow> NonlinearImplicitSystem \<Rightarrow> storage \<Rightarrow> storage"
type_synonym jacobian_fn =
  "PetscVector \<Rightarrow> PetscMatrix \<Rightarrow> NonlinearImplicitSystem \<Rightarrow> storage \<Rightarrow> storage"
type_synonym matvec_fn =
  "PetscVector \<Rightarrow> PetscVector option \<Rightarrow> PetscMatrix option \<Rightarrow> NonlinearImplicitSystem
     \<Rightarrow> storage \<Rightarrow> storage"
type_synonym postcheck_fn =
  "PetscVector \<Rightarrow> PetscVector \<Rightarrow> PetscVector \<Rightarrow> bool \<Rightarrow> bool \<Rightarrow> NonlinearImplicitSystem
     \<Rightarrow> storage \<Rightarrow> bool \<times> bool \<times> storage"
type_synonym subspace_fn =
  "NonlinearImplicitSystem \<Rightarrow> storage \<Rightarrow> PetscVector list"
type_synonym presolve_fn =
  "NonlinearImplicitSystem \<Rightarrow> storage \<Rightarrow> storage"

datatype form =
    residual_function | residual_obj
  | jacobian_function | jacobian_obj
  | matvec_function | residual_and_jacobian_obj
  | postcheck_function | postcheck_obj
  | presolve_function

text \<open>
  What the adapter asks of the engine and of its other collaborators is recorded, in
  order, in a trace: every PETSc call it makes, every call of a user's computation form
  (\<open>user_call\<close>), and the calls on the preconditioner and the solver configuration.
\<close>

datatype dm_api =
    DMCreate | DMSetType | DMlibMeshSetSystem | DMSetOptionsPrefix string
  | DMSetFromOptions | DMSetUp | DMDestroy

datatype ksp_api =
    KSPGetPC | PCSetType | PCShellSetContext | PCShellSetSetUp | PCShellSetApply
  | KSPSetTolerances real nat

datatype vec_api =
    PetscMalloc2 | VecDuplicate | VecCopy | VecNormalize_call | VecMDot_call | VecMAXPY_call
  | VecDestroy | PetscFree2 | VecNorm_call | VecAssembly Vec

datatype mat_api =
    MatNullSpaceCreate
  | MatSetNullSpace Mat "real list list"
  | MatSetTransposeNullSpace Mat "real list list"
  | MatSetNearNullSpace Mat "real list list"
  | MatNullSpaceDestroy
  | MatAssembly Mat

datatype snes_api =
    SNESCreate | SNESSetOptionsPrefix string | SNESDestroy | SNESSetDM | SNESMonitorSet
  | SNESGetKSP | SNESGetLineSearch | SNESLineSearchSetPostCheck
  | SNESSetFunction Vec | SNESSetJacobian Mat Mat
  | SNESSetTolerances real real real nat nat
  | SNESSetFromOptions
  | SNESSolve Vec
  | SNESGetIterationNumber | SNESGetLinearSolveIterations | SNESGetFunction
  | SNESGetConvergedReason

datatype collaborator_api =
    set_options_during_init | configure_solver
  | preconditioner_init | preconditioner_set_matrix Mat

datatype event =
    user_call form
  | snes_call snes_api
  | dm_call dm_api
  | ksp_call ksp_api
  | vec_call vec_api
  | mat_call mat_api
  | collaborator_call collaborator_api

record world =
  store :: storage
  system :: NonlinearImplicitSystem
  trace :: "event list"

text \<open>
  The engine as the adapter sees it after it has run: the answers to the queries the
  adapter makes.
\<close>

record SNES =
  iteration_number :: int
  linear_solve_iterations :: int
  converged_reason :: int
  function_vec :: Vec

subsection \<open>Calls into PETSc\<close>

text \<open>
  \<open>call\<close> is a call whose return code the code ignores. \<open>chk\<close> is a call followed by
  \<^verbatim>\<open>LIBMESH_CHKERR(ierr)\<close> (or \<^verbatim>\<open>CHKERRABORT\<close>): the return code \<open>ierr ev\<close> is the engine's
  and is a parameter; a non-zero code aborts. \<open>chks\<close> is a run of such calls.
\<close>

definition call :: "event \<Rightarrow> world \<Rightarrow> world" where
  "call ev w = w\<lparr>trace := trace w @ [ev]\<rparr>"

definition chk :: "(event \<Rightarrow> PetscErrorCode) \<Rightarrow> event \<Rightarrow> world \<Rightarrow> error + world" where
  "chk ierr ev w = (if ierr ev = 0 then Inr (call ev w) else Inl (petsc_error (ierr ev)))"

fun chks :: "(event \<Rightarrow> PetscErrorCode) \<Rightarrow> event list \<Rightarrow> world \<Rightarrow> error + world" where
  "chks ierr [] w = Inr w"
| "chks ierr (ev # evs) w = bind_e (chk ierr ev w) (chks ierr evs)"

text \<open>A user's computation form is called: the call is recorded and the store is what the form leaves.\<close>

definition invoke :: "form \<Rightarrow> (storage \<Rightarrow> storage) \<Rightarrow> world \<Rightarrow> world" where
  "invoke k f w = w\<lparr>store := f (store w), trace := trace w @ [user_call k]\<rparr>"

subsection \<open>Vectors and matrices\<close>

text \<open>
  The operations of \<^verbatim>\<open>PetscVector\<close> and \<^verbatim>\<open>PetscMatrix\<close> are defined in
  petsc\_vector.h and petsc\_matrix.h, outside the file. The constructor
  \<^verbatim>\<open>PetscVector<Number> X(x, comm)\<close> wraps an existing handle, which it does not own.
\<close>

definition PetscVector_wrap :: "Vec \<Rightarrow> PetscVector" where
  "PetscVector_wrap v = \<lparr>vec = v, destroy_vec_on_exit = False\<rparr>"

definition PetscMatrix_wrap :: "Mat \<Rightarrow> PetscMatrix" where
  "PetscMatrix_wrap m = \<lparr>mat = m, attached_dof_map = None\<rparr>"

definition attach_dof_map :: "DofMap \<Rightarrow> PetscMatrix \<Rightarrow> PetscMatrix" where
  "attach_dof_map dm M = M\<lparr>attached_dof_map := Some dm\<rparr>"

text \<open>
  Modelled from the spec: \<^verbatim>\<open>PetscVector::swap\<close>, defined in petsc\_vector.h. ``swap exchanges
  the underlying storage between two adapters in O(1) without copying'': the two wrappers
  exchange what they hold, the store is untouched. \<open>PetscVector_swap a b\<close> is the pair
  of the new \<open>a\<close> and the new \<open>b\<close>.
\<close>

definition PetscVector_swap :: "PetscVector \<Rightarrow> PetscVector \<Rightarrow> PetscVector \<times> PetscVector" where
  "PetscVector_swap a b = (b, a)"

text \<open>
  Modelled from the spec: \<^verbatim>\<open>System::update\<close>. ``The system's own refresh-local-view
  operation produces a locally-consistent replica'' of the canonical solution: the
  numbers of \<open>solution\<close> are copied into what \<open>current_local_solution\<close> holds.
\<close>

definition System_update :: "world \<Rightarrow> world" where
  "System_update w =
     w\<lparr>store := (store w)\<lparr>vecs := (vecs (store w))
          (vec (current_local_solution (system w)) := vecs (store w) (vec (solution (system w))))\<rparr>\<rparr>"

text \<open>
  Modelled from the spec: \<^verbatim>\<open>DofMap::enforce_constraints_exactly(system, v)\<close> ``overwrites
  constrained degrees of freedom with their required values'' in \<open>v\<close>; without
  constrained degrees of freedom nothing is written. The global form, without \<open>v\<close>,
  acts on the system's solution.
\<close>

definition enforce_constraints_exactly :: "DofMap \<Rightarrow> PetscVector \<Rightarrow> world \<Rightarrow> world" where
  "enforce_constraints_exactly dm v w =
     (if n_constrained_dofs dm = 0 then w
      else w\<lparr>store := (store w)\<lparr>vecs := (vecs (store w))
             (vec v := required_values dm (vecs (store w) (vec v)))\<rparr>\<rparr>)"

definition enforce_constraints_exactly_global :: "DofMap \<Rightarrow> world \<Rightarrow> world" where
  "enforce_constraints_exactly_global dm w =
     enforce_constraints_exactly dm (solution (system w)) w"

text \<open>
  Modelled from the spec: the ``zero'' and ``finalize'' of a distributed vector or
  matrix (\<^verbatim>\<open>zero()\<close> and \<^verbatim>\<open>close()\<close> in the C++). Zeroing overwrites every number; closing
  changes no number on one process and is recorded in the trace.
\<close>

definition PetscVector_zero :: "PetscVector \<Rightarrow> world \<Rightarrow> world" where
  "PetscVector_zero v w =
     w\<lparr>store := (store w)\<lparr>vecs := (vecs (store w))
          (vec v := map (\<lambda>x. 0) (vecs (store w) (vec v)))\<rparr>\<rparr>"

definition PetscVector_close :: "PetscVector \<Rightarrow> world \<Rightarrow> world" where
  "PetscVector_close v w = call (vec_call (VecAssembly (vec v))) w"

definition PetscMatrix_zero :: "PetscMatrix \<Rightarrow> world \<Rightarrow> world" where
  "PetscMatrix_zero M w =
     w\<lparr>store := (store w)\<lparr>mats := (mats (store w))
          (mat M := map (map (\<lambda>x. 0)) (mats (store w) (mat M)))\<rparr>\<rparr>"

definition PetscMatrix_close :: "PetscMatrix \<Rightarrow> world \<Rightarrow> world" where
  "PetscMatrix_close M w = call (mat_call (MatAssembly (mat M))) w"

text \<open>
  The three lines that both the residual and the Jacobian callback run (107-109,
  198-200): \<^verbatim>\<open>X_global.swap(X_sys); sys.update(); X_global.swap(X_sys);\<close> where \<open>X_sys\<close>
  is the object \<^verbatim>\<open>*sys.solution\<close>, so each swap changes what the system's solution
  holds. The result is the wrapper \<open>X_global\<close> afterwards, and the world.
\<close>

definition localize_through_swap :: "PetscVector \<Rightarrow> world \<Rightarrow> PetscVector \<times> world" where
  "localize_through_swap X_global w =
     (let (X_global, X_sys) = PetscVector_swap X_global (solution (system w));
          w = w\<lparr>system := (system w)\<lparr>solution := X_sys\<rparr>\<rparr>;
          w = System_update w;
          (X_global, X_sys) = PetscVector_swap X_global (solution (system w));
          w = w\<lparr>system := (system w)\<lparr>solution := X_sys\<rparr>\<rparr>
      in (X_global, w))"

subsection \<open>The vector primitives used to build a null space\<close>

text \<open>
  PETSc's vector primitives, on the numbers of vectors of one size (real scalars):
  \<^verbatim>\<open>VecDot\<close>, \<^verbatim>\<open>VecNorm(NORM_2)\<close>, \<^verbatim>\<open>VecScale\<close>, \<^verbatim>\<open>VecAXPY\<close> (\<open>y += alpha x\<close>),
  \<^verbatim>\<open>VecMDot\<close> (the dot products of \<open>x\<close> with each \<open>y\<^sub>j\<close>), \<^verbatim>\<open>VecMAXPY\<close>
  (\<open>y += \<Sum> alpha\<^sub>j x\<^sub>j\<close>) and \<^verbatim>\<open>VecNormalize\<close>, which scales by the inverse of the
  norm and leaves a vector of norm zero as it is.
\<close>

definition VecDot :: "real list \<Rightarrow> real list \<Rightarrow> real" where
  "VecDot x y = (\<Sum>k<length x. x ! k * y ! k)"

definition VecNorm :: "real list \<Rightarrow> real" where
  "VecNorm x = sqrt (VecDot x x)"

definition VecScale :: "real list \<Rightarrow> real \<Rightarrow> real list" where
  "VecScale x alpha = map (\<lambda>xk. alpha * xk) x"

definition VecNormalize :: "real list \<Rightarrow> real list" where
  "VecNormalize x = (let norm = VecNorm x in if norm = 0 then x else VecScale x (1 / norm))"

definition VecMDot :: "real list \<Rightarrow> real list list \<Rightarrow> real list" where
  "VecMDot x ys = map (\<lambda>y. VecDot x y) ys"

definition VecAXPY :: "real list \<Rightarrow> real \<Rightarrow> real list \<Rightarrow> real list" where
  "VecAXPY y alpha x = map2 (\<lambda>yk xk. yk + alpha * xk) y x"

definition VecMAXPY :: "real list \<Rightarrow> real list \<Rightarrow> real list list \<Rightarrow> real list" where
  "VecMAXPY y alphas xs = foldl (\<lambda>acc (alpha, x). VecAXPY acc alpha x) y (zip alphas xs)"

text \<open>
  The loop of lines 550-564, from index \<open>i\<close> on. \<^verbatim>\<open>VecMDot(modes[i],i,modes,dots)\<close> and
  \<^verbatim>\<open>VecMAXPY(modes[i],i,dots,modes)\<close> use the first \<open>i\<close> entries of \<open>modes\<close>;
  in between every dot product is multiplied by \<open>-1\<close>.
\<close>

function orthonormalize_from :: "nat \<Rightarrow> real list list \<Rightarrow> real list list" where
  "orthonormalize_from i modes =
     (if i < length modes then
        (let dots = VecMDot (modes ! i) (take i modes);
             dots = map (\<lambda>d. d * (- 1)) dots;
             v = VecMAXPY (modes ! i) dots (take i modes)
         in orthonormalize_from (i + 1) (modes[i := VecNormalize v]))
      else modes)"
  by pat_completeness auto
termination
  by (relation "measure (\<lambda>(i, modes). length modes - i)") auto

declare orthonormalize_from.simps [simp del]

text \<open>Lines 546-564: \<^verbatim>\<open>VecNormalize(modes[0])\<close>, then the loop from 1. The list is not empty.\<close>

definition orthonormalize :: "real list list \<Rightarrow> real list list" where
  "orthonormalize modes = orthonormalize_from 1 (modes[0 := VecNormalize (modes ! 0)])"

text \<open>
  The PETSc calls \<^verbatim>\<open>build_mat_null_space\<close> makes for \<open>nmodes\<close> vectors, in the order it
  makes them; each is followed by \<^verbatim>\<open>LIBMESH_CHKERR\<close>.
\<close>

definition null_space_calls :: "nat \<Rightarrow> event list" where
  "null_space_calls nmodes =
     [vec_call PetscMalloc2]
     @ concat (replicate nmodes [vec_call VecDuplicate, vec_call VecCopy])
     @ [vec_call VecNormalize_call]
     @ concat (replicate (nmodes - 1)
         [vec_call VecMDot_call, vec_call VecMAXPY_call, vec_call VecNormalize_call])
     @ [mat_call MatNullSpaceCreate]
     @ replicate nmodes (vec_call VecDestroy)
     @ [vec_call PetscFree2]"

text \<open>
  \<^verbatim>\<open>PetscNonlinearSolver<T>::build_mat_null_space\<close>, lines 506-578. The provider fills
  \<open>sp\<close>; \<open>msp\<close> is \<open>None\<close> for \<^verbatim>\<open>PETSC_NULL\<close> and otherwise the basis handed to
  \<^verbatim>\<open>MatNullSpaceCreate\<close>. \<open>modes\<close> are copies (\<^verbatim>\<open>VecDuplicate\<close>, \<^verbatim>\<open>VecCopy\<close>) of the
  provider's vectors, so the computation is on their numbers. The return codes of the
  calls do not depend on those numbers and are checked first, in the code's order.
\<close>

definition build_mat_null_space ::
  "(event \<Rightarrow> PetscErrorCode) \<Rightarrow> subspace_fn option \<Rightarrow> subspace_fn option \<Rightarrow> world
     \<Rightarrow> error + (real list list option \<times> world)" where
  "build_mat_null_space ierr computeSubspaceObject computeSubspace w =
     bind_e
       (case computeSubspaceObject of
          Some obj \<Rightarrow> Inr (obj (system w) (store w))
        | None \<Rightarrow> (case computeSubspace of
            Some f \<Rightarrow> Inr (f (system w) (store w))
          | None \<Rightarrow> Inl null_dereference))
       (\<lambda>sp.
          if sp \<noteq> [] then
            bind_e (chks ierr (null_space_calls (length sp)) w) (\<lambda>w.
              Inr (Some (orthonormalize (map (\<lambda>pv. vecs (store w) (vec pv)) sp)), w))
          else Inr (None, w))"

section \<open>The callback context \<^verbatim>\<open>PetscNonlinearSolver\<close>\<close>

text \<open>
  The members the file reads and writes. The computation forms are pointers in the C++
  (\<open>None\<close> is the null pointer) and are public members of the base class, so
  registering a form is an assignment to the member. The preconditioner and the solver
  configuration are collaborators, of which only the presence matters here.
  The \<^verbatim>\<open>libmesh_assert\<close> lines of the callbacks test that a pointer is not null, which no
  handle or record here is. The run-time checks of \<^verbatim>\<open>cast_ptr\<close> and \<^verbatim>\<open>cast_int\<close> exist in
  debug builds only and are not part of the model; the arguments of the callbacks and
  of \<^verbatim>\<open>solve\<close> have the PETSc types the casts expect.
\<close>

record PetscNonlinearSolver =
  residual :: "residual_fn option"
  residual_object :: "residual_fn option"
  jacobian :: "jacobian_fn option"
  jacobian_object :: "jacobian_fn option"
  matvec :: "matvec_fn option"
  residual_and_jacobian_object :: "matvec_fn option"
  postcheck :: "postcheck_fn option"
  postcheck_object :: "postcheck_fn option"
  nullspace :: "subspace_fn option"
  nullspace_object :: "subspace_fn option"
  transpose_nullspace :: "subspace_fn option"
  transpose_nullspace_object :: "subspace_fn option"
  nearnullspace :: "subspace_fn option"
  nearnullspace_object :: "subspace_fn option"
  user_presolve :: "presolve_fn option"
  max_nonlinear_iterations :: nat
  max_function_evaluations :: nat
  absolute_residual_tolerance :: real
  relative_residual_tolerance :: real
  relative_step_tolerance :: real
  max_linear_iterations :: nat
  initial_linear_tolerance :: real
  converged :: bool
  is_initialized :: bool
  preconditioner :: bool
  solver_configuration :: bool
  reason :: int
  n_linear_iterations :: int
  current_nonlinear_iteration_number :: nat
  zero_out_residual :: bool
  zero_out_jacobian :: bool
  default_monitor :: bool

text \<open>
  The engine is a parameter: \<open>return_code\<close> is the return code of each checked call, and
  \<open>SNESSolve_run\<close> is what a run of \<^verbatim>\<open>SNESSolve\<close> does, with every callback it makes on
  the way, and the state it leaves the engine in; it is an error when a callback aborts.
\<close>

record engine =
  return_code :: "event \<Rightarrow> PetscErrorCode"
  SNESSolve_run :: "Vec \<Rightarrow> PetscNonlinearSolver \<Rightarrow> world
                      \<Rightarrow> error + (PetscNonlinearSolver \<times> world \<times> SNES)"

text \<open>
  The constructor, lines 357-366, on top of what the base class constructor leaves.
\<close>

definition PetscNonlinearSolver_ctor :: "PetscNonlinearSolver \<Rightarrow> PetscNonlinearSolver" where
  "PetscNonlinearSolver_ctor base =
     base\<lparr>reason := 0, n_linear_iterations := 0, current_nonlinear_iteration_number := 0,
          zero_out_residual := True, zero_out_jacobian := True, default_monitor := True\<rparr>"

text \<open>
  \<^verbatim>\<open>cast_int<unsigned>(n_iterations)\<close>: the conversion of a \<^verbatim>\<open>PetscInt\<close> to a 32-bit
  unsigned (the check that no value is lost exists in debug builds only).
\<close>

definition cast_int_unsigned :: "int \<Rightarrow> nat" where
  "cast_int_unsigned n = nat (n mod 2 ^ 32)"

subsection \<open>The residual callback\<close>

text \<open>\<^verbatim>\<open>__libmesh_petsc_snes_residual (SNES snes, Vec x, Vec r, void * ctx)\<close>, lines 73-147.\<close>

definition libmesh_petsc_snes_residual ::
  "(event \<Rightarrow> PetscErrorCode) \<Rightarrow> SNES \<Rightarrow> Vec \<Rightarrow> Vec \<Rightarrow> PetscNonlinearSolver \<Rightarrow> world
     \<Rightarrow> error + (PetscErrorCode \<times> PetscNonlinearSolver \<times> world)" where
  "libmesh_petsc_snes_residual ierr snes x r solver w =
     bind_e (chk ierr (snes_call SNESGetIterationNumber) w) (\<lambda>w.
       let solver = solver\<lparr>current_nonlinear_iteration_number :=
                              cast_int_unsigned (iteration_number snes)\<rparr>;
           X_global = PetscVector_wrap x;
           R = PetscVector_wrap r;
           (X_global, w) = localize_through_swap X_global w;
           sys = system w;
           w = enforce_constraints_exactly (dof_map sys) (current_local_solution sys) w;
           w = (if zero_out_residual solver then PetscVector_zero R w else w)
       in
         if residual solver \<noteq> None \<and> residual_object solver \<noteq> None then
           Inl (libmesh_error
             ''ERROR: cannot specify both a function and object to compute the Residual!'')
         else if matvec solver \<noteq> None \<and> residual_and_jacobian_object solver \<noteq> None then
           Inl (libmesh_error
             ''ERROR: cannot specify both a function and object to compute the combined Residual & Jacobian!'')
         else
           bind_e
             (case residual solver of
                Some f \<Rightarrow>
                  Inr (invoke residual_function (f (current_local_solution sys) R sys) w)
              | None \<Rightarrow>
             (case residual_object solver of
                Some obj \<Rightarrow>
                  Inr (invoke residual_obj (obj (current_local_solution sys) R sys) w)
              | None \<Rightarrow>
             (case matvec solver of
                Some f \<Rightarrow>
                  Inr (invoke matvec_function
                         (f (current_local_solution sys) (Some R) None sys) w)
              | None \<Rightarrow>
             (case residual_and_jacobian_object solver of
                Some obj \<Rightarrow>
                  Inr (invoke residual_and_jacobian_obj
                         (obj (current_local_solution sys) (Some R) None sys) w)
              | None \<Rightarrow>
                  Inl (libmesh_error
                    ''Error! Unable to compute residual and/or Jacobian!'')))))
             (\<lambda>w. Inr (0, solver, PetscVector_close R w)))"

text \<open>
  The same lines 73-147, with the state at the point of a raise kept: an error comes
  with the world as it is when the exception is thrown, so that what the callback has
  called before it fails can be read off the trace. After a failed
  \<^verbatim>\<open>SNESGetIterationNumber\<close> that call is the last of the trace.
\<close>

definition libmesh_petsc_snes_residual_traced ::
  "(event \<Rightarrow> PetscErrorCode) \<Rightarrow> SNES \<Rightarrow> Vec \<Rightarrow> Vec \<Rightarrow> PetscNonlinearSolver \<Rightarrow> world
     \<Rightarrow> (error \<times> world) + (PetscErrorCode \<times> PetscNonlinearSolver \<times> world)" where
  "libmesh_petsc_snes_residual_traced ierr snes x r solver w =
     (case chk ierr (snes_call SNESGetIterationNumber) w of
        Inl e \<Rightarrow> Inl (e, call (snes_call SNESGetIterationNumber) w)
      | Inr w \<Rightarrow>
       let solver = solver\<lparr>current_nonlinear_iteration_number :=
                              cast_int_unsigned (iteration_number snes)\<rparr>;
           X_global = PetscVector_wrap x;
           R = PetscVector_wrap r;
           (X_global, w) = localize_through_swap X_global w;
           sys = system w;
           w = enforce_constraints_exactly (dof_map sys) (current_local_solution sys) w;
           w = (if zero_out_residual solver then PetscVector_zero R w else w)
       in
         if residual solver \<noteq> None \<and> residual_object solver \<noteq> None then
           Inl (libmesh_error
             ''ERROR: cannot specify both a function and object to compute the Residual!'', w)
         else if matvec solver \<noteq> None \<and> residual_and_jacobian_object solver \<noteq> None then
           Inl (libmesh_error
             ''ERROR: cannot specify both a function and object to compute the combined Residual & Jacobian!'', w)
         else
           bind_e
             (case residual solver of
                Some f \<Rightarrow>
                  Inr (invoke residual_function (f (current_local_solution sys) R sys) w)
              | None \<Rightarrow>
             (case residual_object solver of
                Some obj \<Rightarrow>
                  Inr (invoke residual_obj (obj (current_local_solution sys) R sys) w)
              | None \<Rightarrow>
             (case matvec solver of
                Some f \<Rightarrow>
                  Inr (invoke matvec_function
                         (f (current_local_solution sys) (Some R) None sys) w)
              | None \<Rightarrow>
             (case residual_and_jacobian_object solver of
                Some obj \<Rightarrow>
                  Inr (invoke residual_and_jacobian_obj
                         (obj (current_local_solution sys) (Some R) None sys) w)
              | None \<Rightarrow>
                  Inl (libmesh_error
                    ''Error! Unable to compute residual and/or Jacobian!'', w)))))
             (\<lambda>w. Inr (0, solver, PetscVector_close R w)))"

subsection \<open>The Jacobian callback\<close>

text \<open>
  \<^verbatim>\<open>__libmesh_petsc_snes_jacobian (SNES snes, Vec x, Mat jac, Mat pc, void * ctx)\<close>, lines
  153-242, in the form for PETSc 3.5 and later.
\<close>

definition libmesh_petsc_snes_jacobian ::
  "(event \<Rightarrow> PetscErrorCode) \<Rightarrow> SNES \<Rightarrow> Vec \<Rightarrow> Mat \<Rightarrow> Mat \<Rightarrow> PetscNonlinearSolver \<Rightarrow> world
     \<Rightarrow> error + (PetscErrorCode \<times> PetscNonlinearSolver \<times> world)" where
  "libmesh_petsc_snes_jacobian ierr snes x jac pc solver w =
     bind_e (chk ierr (snes_call SNESGetIterationNumber) w) (\<lambda>w.
       let solver = solver\<lparr>current_nonlinear_iteration_number :=
                              cast_int_unsigned (iteration_number snes)\<rparr>;
           PC = PetscMatrix_wrap pc;
           Jac = PetscMatrix_wrap jac;
           X_global = PetscVector_wrap x;
           PC = attach_dof_map (dof_map (system w)) PC;
           Jac = attach_dof_map (dof_map (system w)) Jac;
           (X_global, w) = localize_through_swap X_global w;
           sys = system w;
           w = enforce_constraints_exactly (dof_map sys) (current_local_solution sys) w;
           w = (if zero_out_jacobian solver then PetscMatrix_zero PC w else w)
       in
         if jacobian solver \<noteq> None \<and> jacobian_object solver \<noteq> None then
           Inl (libmesh_error
             ''ERROR: cannot specify both a function and object to compute the Jacobian!'')
         else if matvec solver \<noteq> None \<and> residual_and_jacobian_object solver \<noteq> None then
           Inl (libmesh_error
             ''ERROR: cannot specify both a function and object to compute the combined Residual & Jacobian!'')
         else
           bind_e
             (case jacobian solver of
                Some f \<Rightarrow>
                  Inr (invoke jacobian_function (f (current_local_solution sys) PC sys) w)
              | None \<Rightarrow>
             (case jacobian_object solver of
                Some obj \<Rightarrow>
                  Inr (invoke jacobian_obj (obj (current_local_solution sys) PC sys) w)
              | None \<Rightarrow>
             (case matvec solver of
                Some f \<Rightarrow>
                  Inr (invoke matvec_function
                         (f (current_local_solution sys) None (Some PC) sys) w)
              | None \<Rightarrow>
             (case residual_and_jacobian_object solver of
                Some obj \<Rightarrow>
                  Inr (invoke residual_and_jacobian_obj
                         (obj (current_local_solution sys) None (Some PC) sys) w)
              | None \<Rightarrow>
                  Inl (libmesh_error
                    ''Error! Unable to compute residual and/or Jacobian!'')))))
             (\<lambda>w. Inr (0, solver, PetscMatrix_close Jac (PetscMatrix_close PC w))))"

subsection \<open>The post-check callback\<close>

text \<open>A user's post-check is called: it returns the two flags it was given, as it leaves them.\<close>

definition invoke_postcheck ::
  "form \<Rightarrow> (storage \<Rightarrow> bool \<times> bool \<times> storage) \<Rightarrow> world \<Rightarrow> bool \<times> bool \<times> world" where
  "invoke_postcheck k f w =
     (let (changed_search_direction, changed_new_soln, st) = f (store w)
      in (changed_search_direction, changed_new_soln,
          w\<lparr>store := st, trace := trace w @ [user_call k]\<rparr>))"

text \<open>
  \<^verbatim>\<open>__libmesh_petsc_snes_postcheck(SNESLineSearch, Vec x, Vec y, Vec w, PetscBool * changed_y,
  PetscBool * changed_w, void * context)\<close>, lines 254-348. The candidate solution \<open>w\<close> of
  the C++ is \<open>w_vec\<close> here. The result holds the return code and the two output flags
  \<open>changed_y\<close> and \<open>changed_w\<close>, in this order.
\<close>

definition libmesh_petsc_snes_postcheck ::
  "Vec \<Rightarrow> Vec \<Rightarrow> Vec \<Rightarrow> PetscNonlinearSolver \<Rightarrow> world
     \<Rightarrow> error + (PetscErrorCode \<times> bool \<times> bool \<times> world)" where
  "libmesh_petsc_snes_postcheck x y w_vec solver w =
     (let changed_w = False;
          changed_y = False
      in
        if postcheck solver \<noteq> None \<and> postcheck_object solver \<noteq> None then
          Inl (libmesh_error
            ''ERROR: cannot specify both a function and object for performing the solve postcheck!'')
        else
          let sys = system w;
              dm = dof_map sys
          in
            if n_constrained_dofs dm = 0 \<and> postcheck solver = None
               \<and> postcheck_object solver = None then
              Inr (0, changed_y, changed_w, w)
            else
              let petsc_w = PetscVector_wrap w_vec;
                  changed_search_direction = False;
                  changed_new_soln = False;
                  (changed_search_direction, changed_new_soln, w) =
                    (if postcheck solver \<noteq> None \<or> postcheck_object solver \<noteq> None then
                       (let petsc_x = PetscVector_wrap x;
                            petsc_y = PetscVector_wrap y
                        in case postcheck solver of
                             Some f \<Rightarrow>
                               invoke_postcheck postcheck_function
                                 (f petsc_x petsc_y petsc_w
                                    changed_search_direction changed_new_soln sys) w
                           | None \<Rightarrow>
                          (case postcheck_object solver of
                             Some obj \<Rightarrow>
                               invoke_postcheck postcheck_obj
                                 (obj petsc_x petsc_y petsc_w
                                    changed_search_direction changed_new_soln sys) w
                           | None \<Rightarrow> (changed_search_direction, changed_new_soln, w)))
                     else (changed_search_direction, changed_new_soln, w));
                  changed_y = (if changed_search_direction then True else changed_y);
                  changed_w = (if changed_new_soln then True else changed_w);
                  (changed_w, w) =
                    (if n_constrained_dofs dm \<noteq> 0 then
                       (let (petsc_w, system_soln) =
                              PetscVector_swap petsc_w (solution (system w));
                            w = w\<lparr>system := (system w)\<lparr>solution := system_soln\<rparr>\<rparr>;
                            w = enforce_constraints_exactly_global dm w;
                            changed_w = True;
                            (petsc_w, system_soln) =
                              PetscVector_swap petsc_w (solution (system w));
                            w = w\<lparr>system := (system w)\<lparr>solution := system_soln\<rparr>\<rparr>
                        in (changed_w, w))
                     else (changed_w, w))
              in Inr (0, changed_y, changed_w, w))"

subsection \<open>\<^verbatim>\<open>clear\<close> and \<^verbatim>\<open>init\<close>\<close>

definition calls :: "event list \<Rightarrow> world \<Rightarrow> world" where
  "calls evs w = fold call evs w"

text \<open>\<^verbatim>\<open>PetscNonlinearSolver<T>::clear\<close>, lines 378-395.\<close>

definition clear ::
  "engine \<Rightarrow> PetscNonlinearSolver \<Rightarrow> world \<Rightarrow> error + (PetscNonlinearSolver \<times> world)" where
  "clear E solver w =
     (if is_initialized solver then
        (let solver = solver\<lparr>is_initialized := False\<rparr>
         in bind_e (chk (return_code E) (snes_call SNESDestroy) w) (\<lambda>w.
              Inr (solver\<lparr>current_nonlinear_iteration_number := 0\<rparr>, w)))
      else Inr (solver, w))"

text \<open>
  \<^verbatim>\<open>PetscNonlinearSolver<T>::init (const char * name)\<close>, lines 399-504, with the
  preprocessor branches of PETSc 3.4 and later (a DM is attached, the options are not
  read here, the post-check goes to the line search).
\<close>

definition init ::
  "engine \<Rightarrow> string option \<Rightarrow> PetscNonlinearSolver \<Rightarrow> world
     \<Rightarrow> error + (PetscNonlinearSolver \<times> world)" where
  "init E name solver w =
     bind_e
       (if \<not> is_initialized solver then
          (let solver = solver\<lparr>is_initialized := True\<rparr>
           in
             bind_e (chk (return_code E) (snes_call SNESCreate) w) (\<lambda>w.
             bind_e (case name of
                       Some n \<Rightarrow> chk (return_code E) (snes_call (SNESSetOptionsPrefix n)) w
                     | None \<Rightarrow> Inr w) (\<lambda>w.
             bind_e (chks (return_code E)
                       [dm_call DMCreate, dm_call DMSetType, dm_call DMlibMeshSetSystem] w) (\<lambda>w.
             bind_e (case name of
                       Some n \<Rightarrow> chk (return_code E) (dm_call (DMSetOptionsPrefix n)) w
                     | None \<Rightarrow> Inr w) (\<lambda>w.
             bind_e (chks (return_code E)
                       [dm_call DMSetFromOptions, dm_call DMSetUp, snes_call SNESSetDM,
                        dm_call DMDestroy] w) (\<lambda>w.
             bind_e (if default_monitor solver
                     then chk (return_code E) (snes_call SNESMonitorSet) w
                     else Inr w) (\<lambda>w.
             let w = (if solver_configuration solver
                      then call (collaborator_call set_options_during_init) w else w)
             in
             bind_e (if preconditioner solver then
                       bind_e (chks (return_code E)
                                 [snes_call SNESGetKSP, ksp_call KSPGetPC] w) (\<lambda>w.
                         Inr (calls [collaborator_call preconditioner_init,
                                     ksp_call PCSetType, ksp_call PCShellSetContext,
                                     ksp_call PCShellSetSetUp, ksp_call PCShellSetApply] w))
                     else Inr w) (\<lambda>w.
             Inr (solver, w)))))))))
        else Inr (solver, w))
       (\<lambda>(solver, w).
          if postcheck solver \<noteq> None \<or> postcheck_object solver \<noteq> None then
            bind_e (chks (return_code E)
                      [snes_call SNESGetLineSearch, snes_call SNESLineSearchSetPostCheck] w)
              (\<lambda>w. Inr (solver, w))
          else Inr (solver, w))"

subsection \<open>\<^verbatim>\<open>solve\<close>\<close>

text \<open>
  One of the three blocks of lines 612-662: when a provider of the subspace is
  registered, the basis is built and, unless it is \<^verbatim>\<open>PETSC_NULL\<close>, attached to the
  Jacobian matrix with the call \<open>attach\<close> and destroyed.
\<close>

definition attach_subspace ::
  "(event \<Rightarrow> PetscErrorCode) \<Rightarrow> subspace_fn option \<Rightarrow> subspace_fn option
     \<Rightarrow> (real list list \<Rightarrow> event) \<Rightarrow> world \<Rightarrow> error + world" where
  "attach_subspace ierr computeSubspaceObject computeSubspace attach w =
     (if computeSubspace \<noteq> None \<or> computeSubspaceObject \<noteq> None then
        bind_e (build_mat_null_space ierr computeSubspaceObject computeSubspace w) (\<lambda>(msp, w).
          case msp of
            Some basis \<Rightarrow> chks ierr [attach basis, mat_call MatNullSpaceDestroy] w
          | None \<Rightarrow> Inr w)
      else Inr w)"

text \<open>Lines 705-736 of \<^verbatim>\<open>solve\<close>: what it does once \<^verbatim>\<open>SNESSolve\<close> has returned.\<close>

definition solve_after_engine ::
  "engine \<Rightarrow> SNES \<Rightarrow> PetscNonlinearSolver \<Rightarrow> world
     \<Rightarrow> error + ((nat \<times> real) \<times> PetscNonlinearSolver \<times> world)" where
  "solve_after_engine E snes solver w =
     bind_e (chk (return_code E) (snes_call SNESGetIterationNumber) w) (\<lambda>w.
     let n_iterations = iteration_number snes in
     bind_e (chk (return_code E) (snes_call SNESGetLinearSolveIterations) w) (\<lambda>w.
     let solver = solver\<lparr>n_linear_iterations := linear_solve_iterations snes\<rparr>;
         w = enforce_constraints_exactly_global (dof_map (system w)) w
     in
     bind_e (chks (return_code E) [snes_call SNESGetFunction, vec_call VecNorm_call] w) (\<lambda>w.
     let final_residual_norm = VecNorm (vecs (store w) (function_vec snes));
         w = call (snes_call SNESGetConvergedReason) w;
         solver = solver\<lparr>reason := converged_reason snes\<rparr>;
         solver = solver\<lparr>converged := (reason solver \<ge> 0)\<rparr>
     in
     bind_e (clear E solver w) (\<lambda>(solver, w).
     Inr ((cast_int_unsigned n_iterations, final_residual_norm), solver, w)))))"

text \<open>
  Lines 589-700 of \<^verbatim>\<open>PetscNonlinearSolver<T>::solve\<close>: what it does before it calls
  \<^verbatim>\<open>SNESSolve\<close>, with the preprocessor branches of PETSc 3.7 and later. The arguments
  arrive as PETSc wrappers.
\<close>

definition solve_before_engine ::
  "engine \<Rightarrow> PetscMatrix \<Rightarrow> PetscVector \<Rightarrow> PetscVector \<Rightarrow> PetscNonlinearSolver \<Rightarrow> world
     \<Rightarrow> error + (PetscNonlinearSolver \<times> world)" where
  "solve_before_engine E jac x r solver w =
     bind_e (init E None solver w) (\<lambda>(solver, w).
     bind_e (chk (return_code E) (snes_call (SNESSetFunction (vec r))) w) (\<lambda>w.
     bind_e (if jacobian solver \<noteq> None \<or> jacobian_object solver \<noteq> None
                \<or> residual_and_jacobian_object solver \<noteq> None
             then chk (return_code E) (snes_call (SNESSetJacobian (mat jac) (mat jac))) w
             else Inr w) (\<lambda>w.
     bind_e (attach_subspace (return_code E) (nullspace_object solver) (nullspace solver)
               (\<lambda>basis. mat_call (MatSetNullSpace (mat jac) basis)) w) (\<lambda>w.
     bind_e (attach_subspace (return_code E)
               (transpose_nullspace_object solver) (transpose_nullspace solver)
               (\<lambda>basis. mat_call (MatSetTransposeNullSpace (mat jac) basis)) w) (\<lambda>w.
     bind_e (attach_subspace (return_code E)
               (nearnullspace_object solver) (nearnullspace solver)
               (\<lambda>basis. mat_call (MatSetNearNullSpace (mat jac) basis)) w) (\<lambda>w.
     bind_e (chks (return_code E)
               [snes_call SNESGetKSP,
                ksp_call (KSPSetTolerances (initial_linear_tolerance solver)
                            (max_linear_iterations solver)),
                snes_call (SNESSetTolerances (absolute_residual_tolerance solver)
                             (relative_residual_tolerance solver)
                             (relative_step_tolerance solver)
                             (max_nonlinear_iterations solver)
                             (max_function_evaluations solver))] w) (\<lambda>w.
     let w = call (snes_call SNESSetFromOptions) w;
         w = (case user_presolve solver of
                Some f \<Rightarrow> invoke presolve_function (f (system w)) w
              | None \<Rightarrow> w);
         w = (if preconditioner solver
              then calls [collaborator_call (preconditioner_set_matrix (mat jac)),
                          collaborator_call preconditioner_init] w
              else w);
         w = (if solver_configuration solver
              then call (collaborator_call configure_solver) w else w)
     in Inr (solver, w))))))))"

text \<open>
  \<^verbatim>\<open>PetscNonlinearSolver<T>::solve\<close>, lines 581-737: the preparation, the run of the
  engine (line 702) with the check of its return code, and the rest.
\<close>

definition solve ::
  "engine \<Rightarrow> PetscMatrix \<Rightarrow> PetscVector \<Rightarrow> PetscVector \<Rightarrow> PetscNonlinearSolver \<Rightarrow> world
     \<Rightarrow> error + ((nat \<times> real) \<times> PetscNonlinearSolver \<times> world)" where
  "solve E jac x r solver w =
     bind_e (solve_before_engine E jac x r solver w) (\<lambda>(solver, w).
     let w = call (snes_call (SNESSolve (vec x))) w in
     bind_e (SNESSolve_run E (vec x) solver w) (\<lambda>(solver, w, snes).
     if return_code E (snes_call (SNESSolve (vec x))) \<noteq> 0
     then Inl (petsc_error (return_code E (snes_call (SNESSolve (vec x)))))
     else solve_after_engine E snes solver w))"

section \<open>What the specification says, in its own words\<close>

text \<open>
  The precedence order the specification gives for the residual: plain function >
  polymorphic object > combined-matvec function > combined residual-and-jacobian
  object. \<open>first_registered_residual_form\<close> is the first form of that order that is
  registered.
\<close>

definition first_registered_residual_form :: "PetscNonlinearSolver \<Rightarrow> form option" where
  "first_registered_residual_form solver =
     (if residual solver \<noteq> None then Some residual_function
      else if residual_object solver \<noteq> None then Some residual_obj
      else if matvec solver \<noteq> None then Some matvec_function
      else if residual_and_jacobian_object solver \<noteq> None then Some residual_and_jacobian_obj
      else None)"

text \<open>The computation forms called along a trace, in order.\<close>

fun user_calls :: "event list \<Rightarrow> form list" where
  "user_calls [] = []"
| "user_calls (user_call k # evs) = k # user_calls evs"
| "user_calls (ev # evs) = user_calls evs"




text \<open>What the loop body leaves in \<open>modes[i]\<close> before it normalises it.\<close>

definition projected :: "nat \<Rightarrow> real list list \<Rightarrow> real list" where
  "projected i modes =
     VecMAXPY (modes ! i)
       (map (\<lambda>d. d * (- 1)) (VecMDot (modes ! i) (take i modes))) (take i modes)"

section \<open>Concrete inputs\<close>

text \<open>
  A system of two unknowns: its solution is the vector 0, its local replica the vector
  1, and nothing is constrained. The engine's trial point is the vector 2 and its
  residual vector the vector 3; every vector holds \<open>[1, 1]\<close> and every matrix is zero.
\<close>

definition example_system :: NonlinearImplicitSystem where
  "example_system =
     \<lparr>solution = \<lparr>vec = 0, destroy_vec_on_exit = True\<rparr>,
      current_local_solution = \<lparr>vec = 1, destroy_vec_on_exit = True\<rparr>,
      dof_map = \<lparr>n_constrained_dofs = 0, required_values = (\<lambda>v. v)\<rparr>\<rparr>"

definition example_world :: world where
  "example_world =
     \<lparr>store = \<lparr>vecs = (\<lambda>h. [1, 1]), mats = (\<lambda>h. [[0, 0], [0, 0]])\<rparr>,
      system = example_system,
      trace = []\<rparr>"

text \<open>The same system with its first degree of freedom constrained to the value 5.\<close>

definition constrained_world :: world where
  "constrained_world =
     example_world\<lparr>system := example_system
       \<lparr>dof_map := \<lparr>n_constrained_dofs = 1, required_values = (\<lambda>v. v[0 := 5])\<rparr>\<rparr>\<rparr>"

text \<open>A solver as constructed, with no computation form registered.\<close>

definition unconfigured_solver :: PetscNonlinearSolver where
  "unconfigured_solver =
     PetscNonlinearSolver_ctor
       \<lparr>residual = None, residual_object = None, jacobian = None, jacobian_object = None,
        matvec = None, residual_and_jacobian_object = None,
        postcheck = None, postcheck_object = None,
        nullspace = None, nullspace_object = None,
        transpose_nullspace = None, transpose_nullspace_object = None,
        nearnullspace = None, nearnullspace_object = None,
        user_presolve = None,
        max_nonlinear_iterations = 0, max_function_evaluations = 0,
        absolute_residual_tolerance = 0, relative_residual_tolerance = 0,
        relative_step_tolerance = 0, max_linear_iterations = 0,
        initial_linear_tolerance = 0,
        converged = False, is_initialized = False,
        preconditioner = False, solver_configuration = False,
        reason = 0, n_linear_iterations = 0, current_nonlinear_iteration_number = 0,
        zero_out_residual = False, zero_out_jacobian = False, default_monitor = False\<rparr>"

text \<open>User computations: the residual \<open>x\<^sup>2 - 2\<close>, its Jacobian \<open>2 x\<close> on the diagonal, the
  two of them in one combined form, and a post-check that reports no change.\<close>

definition example_residual :: residual_fn where
  "example_residual X R sys st =
     st\<lparr>vecs := (vecs st)(vec R := map (\<lambda>x. x * x - 2) (vecs st (vec X)))\<rparr>"

definition example_jacobian :: jacobian_fn where
  "example_jacobian X J sys st =
     st\<lparr>mats := (mats st)(mat J := map (\<lambda>x. [2 * x]) (vecs st (vec X)))\<rparr>"

definition example_matvec :: matvec_fn where
  "example_matvec X R J sys st =
     (let st = (case R of Some R \<Rightarrow> example_residual X R sys st | None \<Rightarrow> st)
      in case J of Some J \<Rightarrow> example_jacobian X J sys st | None \<Rightarrow> st)"

definition example_postcheck :: postcheck_fn where
  "example_postcheck x y w changed_search_direction changed_new_soln sys st =
     (changed_search_direction, changed_new_soln, st)"

text \<open>An engine whose calls all succeed and whose run stops after 3 iterations, 7 linear
  iterations in all, with the reason code \<open>code\<close> and the residual in vector 3.\<close>

definition example_engine :: "int \<Rightarrow> engine" where
  "example_engine code =
     \<lparr>return_code = (\<lambda>ev. 0),
      SNESSolve_run = (\<lambda>x solver w.
        Inr (solver, w,
             \<lparr>iteration_number = 3, linear_solve_iterations = 7,
              converged_reason = code, function_vec = 3\<rparr>))\<rparr>"

definition example_snes :: SNES where
  "example_snes =
     \<lparr>iteration_number = 2, linear_solve_iterations = 0, converged_reason = 0,
      function_vec = 3\<rparr>"

text \<open>A world in which the vectors 4 and 5 are parallel, and a provider that names the two.\<close>

definition parallel_world :: world where
  "parallel_world =
     example_world\<lparr>store := (store example_world)
       \<lparr>vecs := (\<lambda>h. if h = 4 then [1, 0] else if h = 5 then [2, 0] else [1, 1])\<rparr>\<rparr>"




text \<open>The arguments of a solve: the Jacobian matrix 6, the solution 0 and the residual 3.\<close>

definition example_jac :: PetscMatrix where
  "example_jac = PetscMatrix_wrap 6"

definition example_x :: PetscVector where
  "example_x = PetscVector_wrap 0"

definition example_r :: PetscVector where
  "example_r = PetscVector_wrap 3"

text \<open>A solver with a residual function and a Jacobian function, and one with a
  combined-matvec function only.\<close>

definition function_solver :: PetscNonlinearSolver where
  "function_solver =
     unconfigured_solver\<lparr>residual := Some example_residual, jacobian := Some example_jacobian\<rparr>"

definition matvec_solver :: PetscNonlinearSolver where
  "matvec_solver = unconfigured_solver\<lparr>matvec := Some example_matvec\<rparr>"

text \<open>The calls that register a callback with the engine.\<close>

fun registers_residual :: "event \<Rightarrow> bool" where
  "registers_residual (snes_call (SNESSetFunction v)) = True"
| "registers_residual ev = False"

fun registers_jacobian :: "event \<Rightarrow> bool" where
  "registers_jacobian (snes_call (SNESSetJacobian a b)) = True"
| "registers_jacobian ev = False"

text \<open>A run of calls that registers no callback.\<close>

definition quiet :: "event list \<Rightarrow> bool" where
  "quiet evs = (\<forall>ev\<in>set evs. \<not> registers_residual ev \<and> \<not> registers_jacobian ev)"




text \<open>A result that, when it is an error, is a non-zero return code of the engine.\<close>

definition engine_errors_only :: "error + 'a \<Rightarrow> bool" where
  "engine_errors_only m = (case m of Inl (petsc_error n) \<Rightarrow> True | Inl e \<Rightarrow> False | Inr x \<Rightarrow> True)"

section \<open>Properties of the fixed-dimension vector\<close>

lemma well_formed_ctor:
  "DIM \<in> {1, 2, 3} \<Longrightarrow> well_formed DIM (TypeVector_ctor DIM x y z)"
  by (auto simp: well_formed_def TypeVector_ctor_def)

lemma sum_lessThan_2: "(\<Sum>i<(2::nat). f i) = f 0 + (f 1 :: real)"
  by (simp add: numeral_2_eq_2)

lemma sum_lessThan_3: "(\<Sum>i<(3::nat). f i) = f 0 + f 1 + (f 2 :: real)"
  by (simp add: numeral_3_eq_3 numeral_2_eq_2)

text \<open>
  C9. For two real vectors of dimension \<open>DIM\<close> (1, 2 or 3), \<^verbatim>\<open>==\<close> returns true
  exactly when the sum over all \<open>DIM\<close> coordinates of the absolute coordinate
  differences is strictly below \<open>DIM\<close> times the tolerance, and \<^verbatim>\<open>!=\<close> returns the
  negation of what \<^verbatim>\<open>==\<close> returns.
\<close>

theorem operator_eq_is_tolerance_sum:
  assumes "DIM \<in> {1, 2, 3}"
    and "well_formed DIM v" and "well_formed DIM rhs"
  shows "operator_eq DIM TOLERANCE v rhs = Inr (spec_close DIM TOLERANCE v rhs)
       \<and> operator_ne DIM TOLERANCE v rhs = Inr (\<not> spec_close DIM TOLERANCE v rhs)"
proof -
  from assms(1) consider "DIM = 1" | "DIM = 2" | "DIM = 3" by auto
  then have eq: "operator_eq DIM TOLERANCE v rhs = Inr (spec_close DIM TOLERANCE v rhs)"
  proof cases
    case 1
    then show ?thesis by (simp add: operator_eq_def spec_close_def)
  next
    case 2
    then show ?thesis by (simp add: operator_eq_def spec_close_def sum_lessThan_2)
  next
    case 3
    then show ?thesis by (simp add: operator_eq_def spec_close_def sum_lessThan_3)
  qed
  then show ?thesis by (simp add: operator_ne_def bind_e_def)
qed

theorem operator_eq_is_tolerance_sum_witness:
  "operator_eq 2 (1/4) (TypeVector_ctor 2 1 2 0) (TypeVector_ctor 2 (5/4) 2 0)
     = Inr (spec_close 2 (1/4) (TypeVector_ctor 2 1 2 0) (TypeVector_ctor 2 (5/4) 2 0))
   \<and> operator_ne 2 (1/4) (TypeVector_ctor 2 1 2 0) (TypeVector_ctor 2 (5/4) 2 0)
     = Inr (\<not> spec_close 2 (1/4) (TypeVector_ctor 2 1 2 0) (TypeVector_ctor 2 (5/4) 2 0))
   \<and> spec_close 2 (1/4) (TypeVector_ctor 2 1 2 0) (TypeVector_ctor 2 (5/4) 2 0)
   \<and> \<not> spec_close 2 (1/4) (TypeVector_ctor 2 1 2 0) (TypeVector_ctor 2 (3/2) 2 0)"
proof -
  have d: "(2::nat) \<in> {1, 2, 3}" by simp
  have w1: "well_formed 2 (TypeVector_ctor 2 1 2 0)"
    and w2: "well_formed 2 (TypeVector_ctor 2 (5/4) 2 0)"
    by (simp_all add: well_formed_def TypeVector_ctor_def)
  have s1: "spec_close 2 (1/4) (TypeVector_ctor 2 1 2 0) (TypeVector_ctor 2 (5/4) 2 0)"
    by (simp add: spec_close_def TypeVector_ctor_def sum_lessThan_2)
  have s2: "\<not> spec_close 2 (1/4) (TypeVector_ctor 2 1 2 0) (TypeVector_ctor 2 (3/2) 2 0)"
    by (simp add: spec_close_def TypeVector_ctor_def sum_lessThan_2)
  from operator_eq_is_tolerance_sum [OF d w1 w2, of "1/4"] s1 s2
  show ?thesis by simp
qed

text \<open>
  C10. With \<open>DIM < 3\<close>, the read-only accessor returns 0 at every index \<open>i\<close> with
  \<open>DIM \<le> i < 3\<close>, where the writable accessor is an error; below \<open>DIM\<close> the read-only
  accessor returns coordinate \<open>i\<close>. So for the indices 0, 1 and 2 it always returns a
  value and never reads past the array.
\<close>

theorem accessor_out_of_range:
  assumes "1 \<le> DIM" and "DIM < 3" and "well_formed DIM v"
  shows "(\<forall>i. DIM \<le> i \<and> i < 3 \<longrightarrow>
            get_const DIM v i = Inr 0 \<and> get_ref DIM v i = Inl (libmesh_error []))
       \<and> (\<forall>i. i < DIM \<longrightarrow> get_const DIM v i = Inr (coords v ! i))
       \<and> (\<forall>i. i < 3 \<longrightarrow> (\<exists>r. get_const DIM v i = Inr r))"
  using assms
  by (auto simp: get_const_def get_ref_def array_read_def well_formed_def)

theorem accessor_out_of_range_witness:
  "get_const 2 (TypeVector_ctor 2 7 8 9) 2 = Inr 0
   \<and> get_ref 2 (TypeVector_ctor 2 7 8 9) 2 = Inl (libmesh_error [])
   \<and> get_const 2 (TypeVector_ctor 2 7 8 9) 1 = Inr 8
   \<and> get_const 2 (TypeVector_ctor 2 7 8 9) 0 = Inr 7"
proof -
  have w: "well_formed 2 (TypeVector_ctor 2 7 8 9)"
    by (simp add: well_formed_def TypeVector_ctor_def)
  have c: "coords (TypeVector_ctor 2 7 8 9) = [7, 8]"
    by (simp add: TypeVector_ctor_def)
  from accessor_out_of_range [of 2, OF _ _ w] c
  show ?thesis by simp
qed

section \<open>Basic facts\<close>

lemma bind_e_Inl [simp]: "bind_e (Inl e) f = Inl e"
  by (simp add: bind_e_def)

lemma bind_e_Inr [simp]: "bind_e (Inr x) f = f x"
  by (simp add: bind_e_def)

lemma bind_e_eq_Inr: "bind_e m f = Inr r \<longleftrightarrow> (\<exists>x. m = Inr x \<and> f x = Inr r)"
  by (cases m) simp_all

lemma chk_success: "ierr ev = 0 \<Longrightarrow> chk ierr ev w = Inr (call ev w)"
  by (simp add: chk_def)

lemma chk_failure: "ierr ev \<noteq> 0 \<Longrightarrow> chk ierr ev w = Inl (petsc_error (ierr ev))"
  by (simp add: chk_def)

lemma chk_eq_Inr: "chk ierr ev w = Inr w' \<longleftrightarrow> ierr ev = 0 \<and> w' = call ev w"
  by (auto simp: chk_def)

lemma system_call [simp]: "system (call ev w) = system w"
  and store_call [simp]: "store (call ev w) = store w"
  and trace_call [simp]: "trace (call ev w) = trace w @ [ev]"
  by (simp_all add: call_def)

lemma PetscVector_swap_twice:
  "(case PetscVector_swap a b of (a', b') \<Rightarrow> PetscVector_swap a' b') = (a, b)"
  by (simp add: PetscVector_swap_def)

lemma localize_through_swap_eq:
  "localize_through_swap X w =
     (X, w\<lparr>store := (store w)\<lparr>vecs := (vecs (store w))
            (vec (current_local_solution (system w)) := vecs (store w) (vec X))\<rparr>\<rparr>)"
  by (simp add: localize_through_swap_def PetscVector_swap_def System_update_def Let_def)

lemma localize_through_swap_frame:
  "fst (localize_through_swap X w) = X"
  "system (snd (localize_through_swap X w)) = system w"
  "trace (snd (localize_through_swap X w)) = trace w"
  by (simp_all add: localize_through_swap_eq)

lemma system_System_update [simp]: "system (System_update w) = system w"
  and trace_System_update [simp]: "trace (System_update w) = trace w"
  by (simp_all add: System_update_def)

lemma system_enforce [simp]: "system (enforce_constraints_exactly dm v w) = system w"
  and trace_enforce [simp]: "trace (enforce_constraints_exactly dm v w) = trace w"
  by (simp_all add: enforce_constraints_exactly_def)

lemma system_zero [simp]: "system (PetscVector_zero v w) = system w"
  and trace_zero [simp]: "trace (PetscVector_zero v w) = trace w"
  and system_mzero [simp]: "system (PetscMatrix_zero M w) = system w"
  and trace_mzero [simp]: "trace (PetscMatrix_zero M w) = trace w"
  by (simp_all add: PetscVector_zero_def PetscMatrix_zero_def)

lemma trace_invoke [simp]: "trace (invoke k f w) = trace w @ [user_call k]"
  and system_invoke [simp]: "system (invoke k f w) = system w"
  by (simp_all add: invoke_def)

subsection \<open>No configuration error before a callback runs\<close>

lemma engine_errors_only_Inr [simp]: "engine_errors_only (Inr x)"
  by (simp add: engine_errors_only_def)

lemma engine_errors_only_bind:
  "engine_errors_only m \<Longrightarrow> (\<And>x. engine_errors_only (f x)) \<Longrightarrow> engine_errors_only (bind_e m f)"
  by (cases m) (simp_all add: engine_errors_only_def)

lemma engine_errors_only_chk [simp]: "engine_errors_only (chk ierr ev w)"
  by (simp add: chk_def engine_errors_only_def)

lemma engine_errors_only_chks [simp]: "engine_errors_only (chks ierr evs w)"
  by (induction evs arbitrary: w) (simp_all add: engine_errors_only_bind)

lemma engine_errors_only_if:
  "engine_errors_only a \<Longrightarrow> engine_errors_only b \<Longrightarrow> engine_errors_only (if c then a else b)"
  by simp

lemma engine_errors_only_option:
  "engine_errors_only a \<Longrightarrow> (\<And>y. engine_errors_only (b y))
   \<Longrightarrow> engine_errors_only (case x of None \<Rightarrow> a | Some y \<Rightarrow> b y)"
  by (cases x) simp_all

lemma engine_errors_only_prod:
  "(\<And>a b. engine_errors_only (f a b)) \<Longrightarrow> engine_errors_only (case p of (a, b) \<Rightarrow> f a b)"
  by (cases p) simp

lemma engine_errors_only_not_libmesh:
  "engine_errors_only m \<Longrightarrow> m \<noteq> Inl (libmesh_error msg)"
  by (auto simp: engine_errors_only_def)

lemma init_engine_errors_only: "engine_errors_only (init E name solver w)"
  unfolding init_def Let_def
  by (intro engine_errors_only_bind engine_errors_only_if engine_errors_only_option
        engine_errors_only_prod engine_errors_only_chk engine_errors_only_chks
        engine_errors_only_Inr)

lemma attach_subspace_engine_errors_only:
  "engine_errors_only (attach_subspace ierr obj f attach w)"
proof (cases "f \<noteq> None \<or> obj \<noteq> None")
  case False
  then show ?thesis by (simp add: attach_subspace_def)
next
  case True
  then have "engine_errors_only (build_mat_null_space ierr obj f w)"
    unfolding build_mat_null_space_def
    by (cases obj; cases f)
       (auto intro!: engine_errors_only_bind engine_errors_only_if simp del: chks.simps)
  then show ?thesis
    unfolding attach_subspace_def
    by (intro engine_errors_only_bind engine_errors_only_if engine_errors_only_option
          engine_errors_only_prod engine_errors_only_chks engine_errors_only_Inr)
qed

lemma solve_before_engine_engine_errors_only:
  "engine_errors_only (solve_before_engine E jac x r solver w)"
  unfolding solve_before_engine_def Let_def
  by (intro engine_errors_only_bind engine_errors_only_if engine_errors_only_option
        engine_errors_only_prod engine_errors_only_chk engine_errors_only_chks
        engine_errors_only_Inr init_engine_errors_only attach_subspace_engine_errors_only)

section \<open>The callbacks\<close>

lemma user_calls_append [simp]: "user_calls (xs @ ys) = user_calls xs @ user_calls ys"
  by (induction xs rule: user_calls.induct) simp_all

lemma trace_close [simp]:
  "trace (PetscVector_close v w) = trace w @ [vec_call (VecAssembly (vec v))]"
  by (simp add: PetscVector_close_def)

text \<open>
  The callback's result is that of the traced form, the state at a raise forgotten.
\<close>

lemma libmesh_petsc_snes_residual_traced_forget:
  "libmesh_petsc_snes_residual ierr snes x r solver w =
     (case libmesh_petsc_snes_residual_traced ierr snes x r solver w of
        Inl (e, w1) \<Rightarrow> Inl e
      | Inr res \<Rightarrow> Inr res)"
  by (simp add: libmesh_petsc_snes_residual_def libmesh_petsc_snes_residual_traced_def
        chk_def localize_through_swap_eq Let_def split: option.splits)

text \<open>
  C1, as the code has it. Once the engine has answered the query for the iteration
  number: when both the residual function and the residual object are registered, or
  both the combined function and the combined object, the callback ends in a fatal
  configuration error and has called no form when it raises it; otherwise it calls the
  first registered form of the order plain function > polymorphic object >
  combined-matvec function > combined object, that form and no other, and when none of
  the four is registered it ends in a fatal configuration error, having called no
  form.
\<close>

theorem residual_dispatch_precedence:
  assumes "ierr (snes_call SNESGetIterationNumber) = 0"
  shows "if (residual solver \<noteq> None \<and> residual_object solver \<noteq> None)
            \<or> (matvec solver \<noteq> None \<and> residual_and_jacobian_object solver \<noteq> None)
         then \<exists>msg w1.
                libmesh_petsc_snes_residual ierr snes x r solver w = Inl (libmesh_error msg)
                \<and> libmesh_petsc_snes_residual_traced ierr snes x r solver w
                    = Inl (libmesh_error msg, w1)
                \<and> user_calls (trace w1) = user_calls (trace w)
         else case first_registered_residual_form solver of
                None \<Rightarrow> \<exists>w1.
                  libmesh_petsc_snes_residual ierr snes x r solver w
                    = Inl (libmesh_error ''Error! Unable to compute residual and/or Jacobian!'')
                  \<and> libmesh_petsc_snes_residual_traced ierr snes x r solver w
                    = Inl (libmesh_error ''Error! Unable to compute residual and/or Jacobian!'',
                           w1)
                  \<and> user_calls (trace w1) = user_calls (trace w)
              | Some k \<Rightarrow> \<exists>solver' w'.
                  libmesh_petsc_snes_residual ierr snes x r solver w = Inr (0, solver', w')
                  \<and> libmesh_petsc_snes_residual_traced ierr snes x r solver w
                      = Inr (0, solver', w')
                  \<and> user_calls (trace w') = user_calls (trace w) @ [k]"
  using assms
  by (auto simp: libmesh_petsc_snes_residual_def libmesh_petsc_snes_residual_traced_def
        first_registered_residual_form_def
        chk_success localize_through_swap_eq Let_def split: option.splits)

theorem residual_dispatch_precedence_witness:
  "(\<exists>solver' w'.
      libmesh_petsc_snes_residual (\<lambda>ev. 0) example_snes 2 3
        (unconfigured_solver\<lparr>residual_object := Some example_residual,
                             matvec := Some example_matvec\<rparr>) example_world
        = Inr (0, solver', w')
      \<and> libmesh_petsc_snes_residual_traced (\<lambda>ev. 0) example_snes 2 3
        (unconfigured_solver\<lparr>residual_object := Some example_residual,
                             matvec := Some example_matvec\<rparr>) example_world
        = Inr (0, solver', w')
      \<and> user_calls (trace w') = [residual_obj])
   \<and> (\<exists>w1.
      libmesh_petsc_snes_residual (\<lambda>ev. 0) example_snes 2 3 unconfigured_solver example_world
        = Inl (libmesh_error ''Error! Unable to compute residual and/or Jacobian!'')
      \<and> libmesh_petsc_snes_residual_traced (\<lambda>ev. 0) example_snes 2 3 unconfigured_solver
          example_world
        = Inl (libmesh_error ''Error! Unable to compute residual and/or Jacobian!'', w1)
      \<and> user_calls (trace w1) = [])
   \<and> (\<exists>msg w1.
      libmesh_petsc_snes_residual (\<lambda>ev. 0) example_snes 2 3
        (unconfigured_solver\<lparr>matvec := Some example_matvec,
                             residual_and_jacobian_object := Some example_matvec\<rparr>)
        example_world
        = Inl (libmesh_error msg)
      \<and> libmesh_petsc_snes_residual_traced (\<lambda>ev. 0) example_snes 2 3
        (unconfigured_solver\<lparr>matvec := Some example_matvec,
                             residual_and_jacobian_object := Some example_matvec\<rparr>)
        example_world
        = Inl (libmesh_error msg, w1)
      \<and> user_calls (trace w1) = [])"
proof -
  have f: "first_registered_residual_form
             (unconfigured_solver\<lparr>residual_object := Some example_residual,
                                  matvec := Some example_matvec\<rparr>) = Some residual_obj"
    and n: "first_registered_residual_form unconfigured_solver = None"
    by (simp_all add: first_registered_residual_form_def unconfigured_solver_def
          PetscNonlinearSolver_ctor_def)
  have t: "trace example_world = []" by (simp add: example_world_def)
  have u: "residual unconfigured_solver = None" "residual_object unconfigured_solver = None"
    "matvec unconfigured_solver = None" "residual_and_jacobian_object unconfigured_solver = None"
    by (simp_all add: unconfigured_solver_def PetscNonlinearSolver_ctor_def)
  from residual_dispatch_precedence [of "\<lambda>ev. 0"
      "unconfigured_solver\<lparr>residual_object := Some example_residual,
                           matvec := Some example_matvec\<rparr>" example_snes 2 3 example_world]
  have a: "\<exists>solver' w'.
      libmesh_petsc_snes_residual (\<lambda>ev. 0) example_snes 2 3
        (unconfigured_solver\<lparr>residual_object := Some example_residual,
                             matvec := Some example_matvec\<rparr>) example_world
        = Inr (0, solver', w')
      \<and> libmesh_petsc_snes_residual_traced (\<lambda>ev. 0) example_snes 2 3
        (unconfigured_solver\<lparr>residual_object := Some example_residual,
                             matvec := Some example_matvec\<rparr>) example_world
        = Inr (0, solver', w')
      \<and> user_calls (trace w') = [residual_obj]"
    by (simp add: f t u)
  from residual_dispatch_precedence [of "\<lambda>ev. 0" unconfigured_solver example_snes 2 3
      example_world]
  have b: "\<exists>w1.
      libmesh_petsc_snes_residual (\<lambda>ev. 0) example_snes 2 3 unconfigured_solver example_world
        = Inl (libmesh_error ''Error! Unable to compute residual and/or Jacobian!'')
      \<and> libmesh_petsc_snes_residual_traced (\<lambda>ev. 0) example_snes 2 3 unconfigured_solver
          example_world
        = Inl (libmesh_error ''Error! Unable to compute residual and/or Jacobian!'', w1)
      \<and> user_calls (trace w1) = []"
    by (simp add: n t u)
  from residual_dispatch_precedence [of "\<lambda>ev. 0"
      "unconfigured_solver\<lparr>matvec := Some example_matvec,
                           residual_and_jacobian_object := Some example_matvec\<rparr>"
      example_snes 2 3 example_world]
  have c: "\<exists>msg w1.
      libmesh_petsc_snes_residual (\<lambda>ev. 0) example_snes 2 3
        (unconfigured_solver\<lparr>matvec := Some example_matvec,
                             residual_and_jacobian_object := Some example_matvec\<rparr>)
        example_world
        = Inl (libmesh_error msg)
      \<and> libmesh_petsc_snes_residual_traced (\<lambda>ev. 0) example_snes 2 3
        (unconfigured_solver\<lparr>matvec := Some example_matvec,
                             residual_and_jacobian_object := Some example_matvec\<rparr>)
        example_world
        = Inl (libmesh_error msg, w1)
      \<and> user_calls (trace w1) = []"
    by (simp add: t)
  from a b c show ?thesis by (intro conjI)
qed

text \<open>
  The claim C1 as it is written fails where a guard of the callback stops the
  dispatch: with the residual function and the residual object both registered, the
  first registered form is the plain function, and the callback raises the
  configuration error with no form called.
\<close>

theorem residual_dispatch_counterexample:
  "first_registered_residual_form
     (unconfigured_solver\<lparr>residual := Some example_residual,
                          residual_object := Some example_residual\<rparr>) = Some residual_function
   \<and> libmesh_petsc_snes_residual (\<lambda>ev. 0) example_snes 2 3
        (unconfigured_solver\<lparr>residual := Some example_residual,
                             residual_object := Some example_residual\<rparr>) example_world
      = Inl (libmesh_error
          ''ERROR: cannot specify both a function and object to compute the Residual!'')
   \<and> (\<exists>w1. libmesh_petsc_snes_residual_traced (\<lambda>ev. 0) example_snes 2 3
        (unconfigured_solver\<lparr>residual := Some example_residual,
                             residual_object := Some example_residual\<rparr>) example_world
      = Inl (libmesh_error
          ''ERROR: cannot specify both a function and object to compute the Residual!'', w1)
      \<and> user_calls (trace w1) = [])"
  by (simp add: first_registered_residual_form_def libmesh_petsc_snes_residual_def
        libmesh_petsc_snes_residual_traced_def example_world_def
        chk_success localize_through_swap_eq Let_def)

text \<open>
  C2. Registering a form is an assignment to a member of the solver, which cannot fail:
  it is the record update below. With the function and the object of one role both
  registered, whatever else the solver holds, the callback of that role ends in a
  fatal error: the configuration error, unless the engine failed to answer the query
  for the iteration number, which aborts the residual and the Jacobian callback before
  they look at the registration. The roles are the residual, the Jacobian, the
  combined residual and Jacobian (checked by both callbacks) and the post-check.
  Before a callback runs no configuration error is raised: for every solver
  \<open>registered\<close>, whatever forms it holds, neither \<^verbatim>\<open>init\<close> nor what \<^verbatim>\<open>solve\<close> does
  before it starts the engine ends in one.
\<close>

theorem both_forms_error_at_call:
  "libmesh_petsc_snes_residual ierr snes x r
       (solver\<lparr>residual := Some f, residual_object := Some g\<rparr>) w
     = Inl (if ierr (snes_call SNESGetIterationNumber) = 0
            then libmesh_error
              ''ERROR: cannot specify both a function and object to compute the Residual!''
            else petsc_error (ierr (snes_call SNESGetIterationNumber)))
   \<and> libmesh_petsc_snes_jacobian ierr snes x jac pc
       (solver\<lparr>jacobian := Some fj, jacobian_object := Some gj\<rparr>) w
     = Inl (if ierr (snes_call SNESGetIterationNumber) = 0
            then libmesh_error
              ''ERROR: cannot specify both a function and object to compute the Jacobian!''
            else petsc_error (ierr (snes_call SNESGetIterationNumber)))
   \<and> (\<exists>msg. libmesh_petsc_snes_residual ierr snes x r
       (solver\<lparr>matvec := Some fm, residual_and_jacobian_object := Some gm\<rparr>) w
     = Inl (if ierr (snes_call SNESGetIterationNumber) = 0
            then libmesh_error msg
            else petsc_error (ierr (snes_call SNESGetIterationNumber))))
   \<and> (\<exists>msg. libmesh_petsc_snes_jacobian ierr snes x jac pc
       (solver\<lparr>matvec := Some fm, residual_and_jacobian_object := Some gm\<rparr>) w
     = Inl (if ierr (snes_call SNESGetIterationNumber) = 0
            then libmesh_error msg
            else petsc_error (ierr (snes_call SNESGetIterationNumber))))
   \<and> libmesh_petsc_snes_postcheck x y w_vec
       (solver\<lparr>postcheck := Some fp, postcheck_object := Some gp\<rparr>) w
     = Inl (libmesh_error
         ''ERROR: cannot specify both a function and object for performing the solve postcheck!'')
   \<and> init E name registered w \<noteq> Inl (libmesh_error msg)
   \<and> solve_before_engine E jac_in x_in r_in registered w \<noteq> Inl (libmesh_error msg)"
proof (intro conjI)
  show "init E name registered w \<noteq> Inl (libmesh_error msg)"
    using init_engine_errors_only by (rule engine_errors_only_not_libmesh)
  show "solve_before_engine E jac_in x_in r_in registered w \<noteq> Inl (libmesh_error msg)"
    using solve_before_engine_engine_errors_only by (rule engine_errors_only_not_libmesh)
  show "libmesh_petsc_snes_residual ierr snes x r
       (solver\<lparr>residual := Some f, residual_object := Some g\<rparr>) w
     = Inl (if ierr (snes_call SNESGetIterationNumber) = 0
            then libmesh_error
              ''ERROR: cannot specify both a function and object to compute the Residual!''
            else petsc_error (ierr (snes_call SNESGetIterationNumber)))"
    by (simp add: libmesh_petsc_snes_residual_def chk_def localize_through_swap_eq Let_def)
  show "libmesh_petsc_snes_jacobian ierr snes x jac pc
       (solver\<lparr>jacobian := Some fj, jacobian_object := Some gj\<rparr>) w
     = Inl (if ierr (snes_call SNESGetIterationNumber) = 0
            then libmesh_error
              ''ERROR: cannot specify both a function and object to compute the Jacobian!''
            else petsc_error (ierr (snes_call SNESGetIterationNumber)))"
    by (simp add: libmesh_petsc_snes_jacobian_def chk_def localize_through_swap_eq Let_def)
  show "\<exists>msg. libmesh_petsc_snes_residual ierr snes x r
       (solver\<lparr>matvec := Some fm, residual_and_jacobian_object := Some gm\<rparr>) w
     = Inl (if ierr (snes_call SNESGetIterationNumber) = 0
            then libmesh_error msg
            else petsc_error (ierr (snes_call SNESGetIterationNumber)))"
    by (simp add: libmesh_petsc_snes_residual_def chk_def localize_through_swap_eq Let_def)
  show "\<exists>msg. libmesh_petsc_snes_jacobian ierr snes x jac pc
       (solver\<lparr>matvec := Some fm, residual_and_jacobian_object := Some gm\<rparr>) w
     = Inl (if ierr (snes_call SNESGetIterationNumber) = 0
            then libmesh_error msg
            else petsc_error (ierr (snes_call SNESGetIterationNumber)))"
    by (simp add: libmesh_petsc_snes_jacobian_def chk_def localize_through_swap_eq Let_def)
  show "libmesh_petsc_snes_postcheck x y w_vec
       (solver\<lparr>postcheck := Some fp, postcheck_object := Some gp\<rparr>) w
     = Inl (libmesh_error
         ''ERROR: cannot specify both a function and object for performing the solve postcheck!'')"
    by (simp add: libmesh_petsc_snes_postcheck_def)
qed

theorem both_forms_error_at_call_witness:
  "libmesh_petsc_snes_residual (\<lambda>ev. 0) example_snes 2 3
       (unconfigured_solver\<lparr>residual := Some example_residual,
                            residual_object := Some example_residual\<rparr>) example_world
     = Inl (libmesh_error
         ''ERROR: cannot specify both a function and object to compute the Residual!'')
   \<and> libmesh_petsc_snes_jacobian (\<lambda>ev. 0) example_snes 2 6 6
       (unconfigured_solver\<lparr>jacobian := Some example_jacobian,
                            jacobian_object := Some example_jacobian\<rparr>) example_world
     = Inl (libmesh_error
         ''ERROR: cannot specify both a function and object to compute the Jacobian!'')
   \<and> libmesh_petsc_snes_postcheck 2 8 9
       (unconfigured_solver\<lparr>postcheck := Some example_postcheck,
                            postcheck_object := Some example_postcheck\<rparr>) example_world
     = Inl (libmesh_error
         ''ERROR: cannot specify both a function and object for performing the solve postcheck!'')
   \<and> solve_before_engine (example_engine 2) example_jac example_x example_r
        (unconfigured_solver\<lparr>residual := Some example_residual,
                             residual_object := Some example_residual\<rparr>) example_world
       \<noteq> Inl (libmesh_error
         ''ERROR: cannot specify both a function and object to compute the Residual!'')"
  using both_forms_error_at_call [where ierr = "\<lambda>ev. 0" and snes = example_snes
      and x = 2 and r = 3 and solver = unconfigured_solver and w = example_world
      and f = example_residual and g = example_residual and jac = 6 and pc = 6
      and fj = example_jacobian and gj = example_jacobian
      and fm = example_matvec and gm = example_matvec and y = 8 and w_vec = 9
      and fp = example_postcheck and gp = example_postcheck
      and E = "example_engine 2" and jac_in = example_jac and x_in = example_x
      and r_in = example_r
      and registered = "unconfigured_solver\<lparr>residual := Some example_residual,
                                             residual_object := Some example_residual\<rparr>"
      and msg = "''ERROR: cannot specify both a function and object to compute the Residual!''"]
  by simp

text \<open>
  C3. On a system with at least one constrained degree of freedom the post-check
  callback returns with the flag \<open>changed_w\<close> set, whether or not a user post-check is
  registered and whatever it reports. It returns unless both a post-check function and
  a post-check object are registered, which is the fatal configuration error.
\<close>

theorem postcheck_constrained_reports_change:
  assumes "n_constrained_dofs (dof_map (system w)) > 0"
  shows "if postcheck solver \<noteq> None \<and> postcheck_object solver \<noteq> None
         then libmesh_petsc_snes_postcheck x y w_vec solver w
                = Inl (libmesh_error
                    ''ERROR: cannot specify both a function and object for performing the solve postcheck!'')
         else \<exists>changed_y w'.
                libmesh_petsc_snes_postcheck x y w_vec solver w = Inr (0, changed_y, True, w')"
  using assms
  by (auto simp: libmesh_petsc_snes_postcheck_def Let_def split: prod.splits option.splits)

theorem postcheck_constrained_reports_change_witness:
  "(\<exists>changed_y w'.
      libmesh_petsc_snes_postcheck 7 8 2
        (unconfigured_solver\<lparr>postcheck := Some example_postcheck\<rparr>) constrained_world
        = Inr (0, changed_y, True, w'))
   \<and> (\<exists>changed_y w'.
      libmesh_petsc_snes_postcheck 7 8 2 unconfigured_solver constrained_world
        = Inr (0, changed_y, True, w'))"
proof -
  have c: "0 < n_constrained_dofs (dof_map (system constrained_world))"
    by (simp add: constrained_world_def example_world_def example_system_def)
  have u: "postcheck_object unconfigured_solver = None" "postcheck unconfigured_solver = None"
    by (simp_all add: unconfigured_solver_def PetscNonlinearSolver_ctor_def)
  from postcheck_constrained_reports_change [OF c, of
      "unconfigured_solver\<lparr>postcheck := Some example_postcheck\<rparr>" 7 8 2]
    postcheck_constrained_reports_change [OF c, of unconfigured_solver 7 8 2]
  show ?thesis by (simp add: u)
qed

text \<open>
  C4. On a system without constrained degrees of freedom, with neither a post-check
  function nor a post-check object registered, the post-check callback returns
  success, both flags false, and the world it was given: the three buffers, the
  system and the trace of calls are what they were.
\<close>

theorem postcheck_nothing_to_do:
  assumes "n_constrained_dofs (dof_map (system w)) = 0"
    and "postcheck solver = None" and "postcheck_object solver = None"
  shows "libmesh_petsc_snes_postcheck x y w_vec solver w = Inr (0, False, False, w)"
  using assms by (simp add: libmesh_petsc_snes_postcheck_def)

theorem postcheck_nothing_to_do_witness:
  "libmesh_petsc_snes_postcheck 7 8 2 unconfigured_solver example_world
     = Inr (0, False, False, example_world)"
proof -
  have c: "n_constrained_dofs (dof_map (system example_world)) = 0"
    by (simp add: example_world_def example_system_def)
  have u: "postcheck unconfigured_solver = None" "postcheck_object unconfigured_solver = None"
    by (simp_all add: unconfigured_solver_def PetscNonlinearSolver_ctor_def)
  show ?thesis by (rule postcheck_nothing_to_do [OF c u])
qed

text \<open>
  C5. Swapping two vector wrappers twice gives back the two wrappers. In the callbacks
  the trial vector is swapped into the place of the system's solution, the local
  replica is refreshed, and the trial vector is swapped back: when the replica is not
  the same buffer as the solution (so that refreshing it writes to neither), the
  system's solution is the wrapper it was and holds the numbers it held, and so does
  the trial vector.
\<close>

theorem swap_and_swap_back:
  assumes "vec (current_local_solution (system w)) \<noteq> vec (solution (system w))"
  shows "(case PetscVector_swap a b of (a', b') \<Rightarrow> PetscVector_swap a' b') = (a, b)
       \<and> (case localize_through_swap X_global w of (X_global', w') \<Rightarrow>
            X_global' = X_global
            \<and> solution (system w') = solution (system w)
            \<and> vecs (store w') (vec (solution (system w')))
                = vecs (store w) (vec (solution (system w)))
            \<and> vecs (store w') (vec X_global') = vecs (store w) (vec X_global))"
  using assms by (simp add: PetscVector_swap_def localize_through_swap_eq)

theorem swap_and_swap_back_witness:
  "(case PetscVector_swap (PetscVector_wrap 2) (solution example_system) of
      (a', b') \<Rightarrow> PetscVector_swap a' b') = (PetscVector_wrap 2, solution example_system)
   \<and> (case localize_through_swap (PetscVector_wrap 2) parallel_world of (X_global', w') \<Rightarrow>
        X_global' = PetscVector_wrap 2
        \<and> solution (system w') = solution (system parallel_world)
        \<and> vecs (store w') (vec (solution (system w'))) = [1, 1]
        \<and> vecs (store w') (vec X_global') = [1, 1]
        \<and> vecs (store w') (vec (current_local_solution (system w'))) = [1, 1])"
proof -
  have d: "vec (current_local_solution (system parallel_world))
             \<noteq> vec (solution (system parallel_world))"
    by (simp add: parallel_world_def example_world_def example_system_def)
  from swap_and_swap_back [OF d, of "PetscVector_wrap 2" "solution example_system"
      "PetscVector_wrap 2"]
  show ?thesis
    by (simp add: parallel_world_def example_world_def example_system_def
          localize_through_swap_eq PetscVector_wrap_def)
qed

section \<open>Building a null space\<close>


lemma length_VecScale [simp]: "length (VecScale x a) = length x"
  by (simp add: VecScale_def)

lemma length_VecNormalize [simp]: "length (VecNormalize x) = length x"
  by (simp add: VecNormalize_def Let_def)


















lemma orthonormalize_from_step:
  "i < length modes \<Longrightarrow>
   orthonormalize_from i modes
     = orthonormalize_from (Suc i) (modes[i := VecNormalize (projected i modes)])"
  by (subst orthonormalize_from.simps) (simp add: projected_def Let_def)

lemma orthonormalize_from_done:
  "length modes \<le> i \<Longrightarrow> orthonormalize_from i modes = modes"
  by (subst orthonormalize_from.simps) simp




lemma store_calls [simp]: "store (calls evs w) = store w"
  and system_calls [simp]: "system (calls evs w) = system w"
  and trace_calls [simp]: "trace (calls evs w) = trace w @ evs"
  by (induction evs arbitrary: w) (simp_all add: calls_def)

subsection \<open>Spans and linear independence\<close>









lemma VecNorm_replicate_0 [simp]: "VecNorm (replicate d 0) = 0"
  by (simp add: VecNorm_def VecDot_def)










text \<open>
  Linear independence is what gives every vector norm 1. The loop has no test of it:
  on any vectors of one size the result is orthogonal, each vector a unit vector or
  the zero vector (\<open>orthonormalize_correct\<close>), and a vector that depends on the earlier
  ones is left as the zero vector, as the second of \<open>[1, 0]\<close> and \<open>[2, 0]\<close> here.
\<close>

lemma orthonormalize_parallel: "orthonormalize [[1, 0], [2, 0]] = [[1, 0], [0, 0]]"
proof -
  have n0: "VecNormalize [1, 0] = [1, 0]"
    by (simp add: VecNormalize_def VecNorm_def VecDot_def VecScale_def sum_lessThan_2)
  have n1: "VecNormalize [0, 0] = [0, 0]"
    by (simp add: VecNormalize_def VecNorm_def VecDot_def VecScale_def sum_lessThan_2)
  have p: "projected (Suc 0) [[1, 0], [2, 0]] = [0, 0]"
    by (simp add: projected_def VecMAXPY_def VecMDot_def VecAXPY_def VecDot_def sum_lessThan_2)
  show ?thesis
    by (simp add: orthonormalize_def n0 orthonormalize_from_step orthonormalize_from_done p n1)
qed

section \<open>The solve\<close>

lemma clear_keeps:
  assumes "clear E solver w = Inr (solver', w')"
  shows "converged solver' = converged solver" and "reason solver' = reason solver"
    and "n_linear_iterations solver' = n_linear_iterations solver"
  using assms
  by (auto simp: clear_def Let_def bind_e_eq_Inr chk_eq_Inr split: if_splits)

lemma solve_after_engine_records:
  assumes "solve_after_engine E snes solver w = Inr (res, solver', w')"
  shows "reason solver' = converged_reason snes"
    and "converged solver' \<longleftrightarrow> 0 \<le> converged_reason snes"
    and "n_linear_iterations solver' = linear_solve_iterations snes"
proof -
  from assms obtain s1 w1 w2 where c: "clear E s1 w1 = Inr (solver', w2)"
    and s1: "reason s1 = converged_reason snes"
      "converged s1 \<longleftrightarrow> 0 \<le> converged_reason snes"
      "n_linear_iterations s1 = linear_solve_iterations snes"
    by (auto simp: solve_after_engine_def Let_def bind_e_eq_Inr split: prod.splits)
  from clear_keeps [OF c] s1
  show "reason solver' = converged_reason snes"
    and "converged solver' \<longleftrightarrow> 0 \<le> converged_reason snes"
    and "n_linear_iterations solver' = linear_solve_iterations snes"
    by simp_all
qed

lemma solve_reaches_engine:
  assumes "solve E jac x r solver w = Inr (res, solver', w')"
  shows "\<exists>s0 w0 s1 w1 snes.
           solve_before_engine E jac x r solver w = Inr (s0, w0)
           \<and> SNESSolve_run E (vec x) s0 (call (snes_call (SNESSolve (vec x))) w0)
                = Inr (s1, w1, snes)
           \<and> solve_after_engine E snes s1 w1 = Inr (res, solver', w')"
  using assms
  by (auto simp: solve_def Let_def bind_e_eq_Inr split: if_splits)

text \<open>
  C6. When a solve completes, the reason code the solver holds is the one the engine
  reported after its run, and the flag \<open>converged\<close> is true exactly when that code is
  not negative.
\<close>

theorem converged_iff_reason_nonnegative:
  assumes "solve E jac x r solver w = Inr (res, solver', w')"
  shows "(converged solver' \<longleftrightarrow> 0 \<le> reason solver')
       \<and> (\<exists>s0 w0 s1 w1 snes. SNESSolve_run E (vec x) s0 w0 = Inr (s1, w1, snes)
             \<and> reason solver' = converged_reason snes)"
proof -
  from solve_reaches_engine [OF assms] obtain s0 w0 s1 w1 snes
    where run: "SNESSolve_run E (vec x) s0 (call (snes_call (SNESSolve (vec x))) w0)
                  = Inr (s1, w1, snes)"
      and fin: "solve_after_engine E snes s1 w1 = Inr (res, solver', w')"
    by blast
  note rec = solve_after_engine_records [OF fin]
  have "converged solver' \<longleftrightarrow> 0 \<le> reason solver'"
    using rec by simp
  moreover have "\<exists>s0 w0 s1 w1 snes. SNESSolve_run E (vec x) s0 w0 = Inr (s1, w1, snes)
                   \<and> reason solver' = converged_reason snes"
    using run rec(1) by blast
  ultimately show ?thesis by simp
qed

lemmas solve_unfold =
  solve_def solve_before_engine_def solve_after_engine_def init_def clear_def
  attach_subspace_def chk_def calls_def call_def Let_def
  example_engine_def unconfigured_solver_def PetscNonlinearSolver_ctor_def
  example_jac_def example_x_def example_r_def PetscMatrix_wrap_def PetscVector_wrap_def
  enforce_constraints_exactly_global_def enforce_constraints_exactly_def
  example_world_def example_system_def cast_int_unsigned_def

lemma solve_function_solver_completes:
  "\<exists>res solver' w'.
     solve (example_engine code) example_jac example_x example_r function_solver example_world
       = Inr (res, solver', w')"
  by (simp add: solve_unfold function_solver_def)

theorem converged_iff_reason_nonnegative_witness:
  "(\<exists>res solver' w'.
      solve (example_engine 2) example_jac example_x example_r function_solver example_world
        = Inr (res, solver', w')
      \<and> converged solver' \<and> reason solver' = 2)
   \<and> (\<exists>res solver' w'.
      solve (example_engine (- 3)) example_jac example_x example_r function_solver example_world
        = Inr (res, solver', w')
      \<and> \<not> converged solver' \<and> reason solver' = - 3)"
proof -
  have a: "\<exists>res solver' w'.
      solve (example_engine code) example_jac example_x example_r function_solver example_world
        = Inr (res, solver', w')
      \<and> (converged solver' \<longleftrightarrow> 0 \<le> code) \<and> reason solver' = code" for code
  proof -
    from solve_function_solver_completes [of code] obtain res solver' w'
      where s: "solve (example_engine code) example_jac example_x example_r
                  function_solver example_world = Inr (res, solver', w')"
      by blast
    from converged_iff_reason_nonnegative [OF s]
    have "(converged solver' \<longleftrightarrow> 0 \<le> code) \<and> reason solver' = code"
      by (auto simp: example_engine_def)
    with s show ?thesis by blast
  qed
  from a [of 2] a [of "- 3"] show ?thesis by simp
qed

subsection \<open>Which callbacks a solve registers\<close>

lemma quiet_simps [simp]:
  "quiet []"
  "quiet (ev # evs) \<longleftrightarrow> \<not> registers_residual ev \<and> \<not> registers_jacobian ev \<and> quiet evs"
  "quiet (xs @ ys) \<longleftrightarrow> quiet xs \<and> quiet ys"
  by (auto simp: quiet_def)

lemma calls_Nil [simp]: "calls [] w = w"
  and calls_Cons [simp]: "calls (ev # evs) w = calls evs (call ev w)"
  and calls_append: "calls (xs @ ys) w = calls ys (calls xs w)"
  by (simp_all add: calls_def)

lemma chks_iff: "chks ierr evs w = Inr w' \<longleftrightarrow> (\<forall>ev\<in>set evs. ierr ev = 0) \<and> w' = calls evs w"
  by (induction evs arbitrary: w) (auto simp: bind_e_eq_Inr chk_eq_Inr)

lemma if_chk_iff:
  "(if c then chk ierr ev w else Inr w) = Inr w'
     \<longleftrightarrow> (c \<longrightarrow> ierr ev = 0) \<and> w' = calls (if c then [ev] else []) w"
  by (auto simp: chk_eq_Inr)

lemma case_chk_iff:
  "(case name of Some n \<Rightarrow> chk ierr (f n) w | None \<Rightarrow> Inr w) = Inr w'
     \<longleftrightarrow> (\<forall>n. name = Some n \<longrightarrow> ierr (f n) = 0)
          \<and> w' = calls (case name of Some n \<Rightarrow> [f n] | None \<Rightarrow> []) w"
  by (auto simp: chk_eq_Inr split: option.splits)

lemma if_chks_then_calls_iff:
  "(if c then bind_e (chks ierr evs w) (\<lambda>w. Inr (calls evs' w)) else Inr w) = Inr w'
     \<longleftrightarrow> (c \<longrightarrow> (\<forall>ev\<in>set evs. ierr ev = 0)) \<and> w' = calls (if c then evs @ evs' else []) w"
  by (auto simp: bind_e_eq_Inr chks_iff calls_append)

lemma if_chks_pair_iff:
  "(if c then bind_e (chks ierr evs w) (\<lambda>w. Inr (s, w)) else Inr (s, w)) = Inr (s', w')
     \<longleftrightarrow> (c \<longrightarrow> (\<forall>ev\<in>set evs. ierr ev = 0)) \<and> s' = s \<and> w' = calls (if c then evs else []) w"
  by (auto simp: bind_e_eq_Inr chks_iff)

lemma if_call_eq: "(if c then call ev w else w) = calls (if c then [ev] else []) w"
  by simp

lemma quiet_null_space_calls: "quiet (null_space_calls n)"
  by (auto simp: quiet_def null_space_calls_def)

lemma null_space_body_trace:
  assumes "(if sp \<noteq> [] then
              bind_e (chks ierr (null_space_calls (length sp)) w) (\<lambda>w. Inr (Some (g w), w))
            else Inr (None, w)) = Inr (msp, w')"
  shows "\<exists>evs. trace w' = trace w @ evs \<and> quiet evs"
proof (cases "sp = []")
  case True
  with assms have "w' = w" by simp
  then show ?thesis by simp
next
  case False
  with assms have "w' = calls (null_space_calls (length sp)) w"
    by (auto simp: bind_e_eq_Inr chks_iff)
  then show ?thesis by (simp add: quiet_null_space_calls)
qed

lemma build_mat_null_space_trace:
  assumes "build_mat_null_space ierr obj f w = Inr (msp, w')"
  shows "\<exists>evs. trace w' = trace w @ evs \<and> quiet evs"
  using assms unfolding build_mat_null_space_def bind_e_eq_Inr
  by (elim exE conjE) (rule null_space_body_trace)

lemma attach_subspace_trace:
  assumes "attach_subspace ierr obj f attach w = Inr w'"
    and "\<And>basis. \<not> registers_residual (attach basis) \<and> \<not> registers_jacobian (attach basis)"
  shows "\<exists>evs. trace w' = trace w @ evs \<and> quiet evs"
proof (cases "f \<noteq> None \<or> obj \<noteq> None")
  case False
  with assms(1) have "w' = w" by (simp add: attach_subspace_def)
  then show ?thesis by simp
next
  case True
  with assms(1) obtain msp w1 where b: "build_mat_null_space ierr obj f w = Inr (msp, w1)"
    and c: "(case msp of
               Some basis \<Rightarrow> chks ierr [attach basis, mat_call MatNullSpaceDestroy] w1
             | None \<Rightarrow> Inr w1) = Inr w'"
    by (auto simp: attach_subspace_def bind_e_eq_Inr)
  from build_mat_null_space_trace [OF b] obtain evs
    where e: "trace w1 = trace w @ evs" "quiet evs" by blast
  show ?thesis
  proof (cases msp)
    case None
    with c e show ?thesis by simp
  next
    case (Some basis)
    with c have "w' = calls [attach basis, mat_call MatNullSpaceDestroy] w1"
      by (simp add: chks_iff del: chks.simps)
    with e assms(2) [of basis] show ?thesis by simp
  qed
qed

lemma init_trace:
  assumes "init E name solver w = Inr (solver', w')"
  shows "(\<exists>evs. trace w' = trace w @ evs \<and> quiet evs)
       \<and> solver' = solver\<lparr>is_initialized := True\<rparr>"
proof (cases "is_initialized solver")
  case True
  then have s: "solver\<lparr>is_initialized := True\<rparr> = solver" by simp
  from assms True show ?thesis
    by (simp add: init_def if_chks_pair_iff s del: chks.simps)
next
  case False
  with assms show ?thesis
    by (simp add: init_def Let_def bind_e_eq_Inr chk_eq_Inr chks_iff case_chk_iff if_chk_iff
          if_chks_then_calls_iff if_chks_pair_iff if_call_eq
          del: chks.simps calls_Cons)
       (auto split: option.splits)
qed

lemma quiet_filter:
  "quiet evs \<Longrightarrow> filter registers_residual evs = [] \<and> filter registers_jacobian evs = []"
  by (auto simp: quiet_def filter_empty_conv)

lemma solve_before_engine_tail_trace:
  "\<exists>evs. trace (let w = call (snes_call SNESSetFromOptions) w;
                     w = (case user_presolve solver of
                            Some f \<Rightarrow> invoke presolve_function (f (system w)) w
                          | None \<Rightarrow> w);
                     w = (if preconditioner solver
                          then calls [collaborator_call (preconditioner_set_matrix m),
                                      collaborator_call preconditioner_init] w
                          else w);
                     w = (if solver_configuration solver
                          then call (collaborator_call configure_solver) w else w)
                 in w) = trace w @ evs \<and> quiet evs"
  by (simp add: Let_def split: option.splits)

lemma solve_before_engine_trace:
  assumes "solve_before_engine E jac x r solver w = Inr (s0, w0)"
  shows "\<exists>evs. trace w0 = trace w @ evs
           \<and> filter registers_residual evs = [snes_call (SNESSetFunction (vec r))]
           \<and> filter registers_jacobian evs
               = (if jacobian solver \<noteq> None \<or> jacobian_object solver \<noteq> None
                     \<or> residual_and_jacobian_object solver \<noteq> None
                  then [snes_call (SNESSetJacobian (mat jac) (mat jac))] else [])"
proof -
  let ?rc = "return_code E"
  let ?c = "\<lambda>s. jacobian s \<noteq> None \<or> jacobian_object s \<noteq> None
                 \<or> residual_and_jacobian_object s \<noteq> None"
  from assms obtain s1 w1 w2 w3 w4 w5 w6 w7 where
    i: "init E None solver w = Inr (s1, w1)"
    and f: "chk ?rc (snes_call (SNESSetFunction (vec r))) w1 = Inr w2"
    and j: "(if ?c s1 then chk ?rc (snes_call (SNESSetJacobian (mat jac) (mat jac))) w2
             else Inr w2) = Inr w3"
    and n1: "attach_subspace ?rc (nullspace_object s1) (nullspace s1)
               (\<lambda>basis. mat_call (MatSetNullSpace (mat jac) basis)) w3 = Inr w4"
    and n2: "attach_subspace ?rc (transpose_nullspace_object s1) (transpose_nullspace s1)
               (\<lambda>basis. mat_call (MatSetTransposeNullSpace (mat jac) basis)) w4 = Inr w5"
    and n3: "attach_subspace ?rc (nearnullspace_object s1) (nearnullspace s1)
               (\<lambda>basis. mat_call (MatSetNearNullSpace (mat jac) basis)) w5 = Inr w6"
    and t: "chks ?rc
              [snes_call SNESGetKSP,
               ksp_call (KSPSetTolerances (initial_linear_tolerance s1)
                           (max_linear_iterations s1)),
               snes_call (SNESSetTolerances (absolute_residual_tolerance s1)
                            (relative_residual_tolerance s1) (relative_step_tolerance s1)
                            (max_nonlinear_iterations s1) (max_function_evaluations s1))] w6
            = Inr w7"
    and fin: "w0 = (let w = call (snes_call SNESSetFromOptions) w7;
                     w = (case user_presolve s1 of
                            Some f \<Rightarrow> invoke presolve_function (f (system w)) w
                          | None \<Rightarrow> w);
                     w = (if preconditioner s1
                          then calls [collaborator_call (preconditioner_set_matrix (mat jac)),
                                      collaborator_call preconditioner_init] w
                          else w);
                     w = (if solver_configuration s1
                          then call (collaborator_call configure_solver) w else w)
                 in w)"
    by (auto simp: solve_before_engine_def bind_e_eq_Inr Let_def simp del: chks.simps)
  from init_trace [OF i] obtain e0 where e0: "trace w1 = trace w @ e0" "quiet e0"
    and s1: "s1 = solver\<lparr>is_initialized := True\<rparr>" by blast
  from f have w2: "trace w2 = trace w1 @ [snes_call (SNESSetFunction (vec r))]"
    by (simp add: chk_eq_Inr)
  from j have w3: "trace w3 = trace w2 @ (if ?c s1
                     then [snes_call (SNESSetJacobian (mat jac) (mat jac))] else [])"
    by (simp add: if_chk_iff)
  from attach_subspace_trace [OF n1] obtain e1 where e1: "trace w4 = trace w3 @ e1" "quiet e1"
    by auto
  from attach_subspace_trace [OF n2] obtain e2 where e2: "trace w5 = trace w4 @ e2" "quiet e2"
    by auto
  from attach_subspace_trace [OF n3] obtain e3 where e3: "trace w6 = trace w5 @ e3" "quiet e3"
    by auto
  from t obtain e4 where e4: "trace w7 = trace w6 @ e4" "quiet e4"
    by (auto simp: chks_iff simp del: chks.simps)
  from solve_before_engine_tail_trace [of w7 s1 "mat jac"] fin
  obtain e5 where e5: "trace w0 = trace w7 @ e5" "quiet e5" by auto
  let ?evs = "e0 @ [snes_call (SNESSetFunction (vec r))]
              @ (if ?c s1 then [snes_call (SNESSetJacobian (mat jac) (mat jac))] else [])
              @ e1 @ e2 @ e3 @ e4 @ e5"
  have "trace w0 = trace w @ ?evs"
    using e0 w2 w3 e1 e2 e3 e4 e5 by simp
  moreover have "filter registers_residual ?evs = [snes_call (SNESSetFunction (vec r))]"
    using e0 e1 e2 e3 e4 e5 by (simp add: quiet_filter)
  moreover have "filter registers_jacobian ?evs
      = (if ?c solver then [snes_call (SNESSetJacobian (mat jac) (mat jac))] else [])"
    using e0 e1 e2 e3 e4 e5 by (simp add: quiet_filter s1)
  ultimately show ?thesis by blast
qed

text \<open>
  C7, what the code does. A solve that completes has handed the engine a world in which,
  since the solve began, the residual callback was registered exactly once (by
  \<^verbatim>\<open>SNESSetFunction\<close> on the residual vector) and the Jacobian callback was registered
  exactly when a Jacobian function, a Jacobian object or a combined
  residual-and-jacobian object is registered, once, by \<^verbatim>\<open>SNESSetJacobian\<close>. The
  combined-matvec function is not among the forms the test of line 607 looks at.
\<close>

theorem solve_registers_callbacks:
  assumes "solve E jac x r solver w = Inr (res, solver', w')"
  shows "\<exists>s0 w0 evs.
           solve_before_engine E jac x r solver w = Inr (s0, w0)
           \<and> trace w0 = trace w @ evs
           \<and> filter registers_residual evs = [snes_call (SNESSetFunction (vec r))]
           \<and> filter registers_jacobian evs
               = (if jacobian solver \<noteq> None \<or> jacobian_object solver \<noteq> None
                     \<or> residual_and_jacobian_object solver \<noteq> None
                  then [snes_call (SNESSetJacobian (mat jac) (mat jac))] else [])"
proof -
  from solve_reaches_engine [OF assms] obtain s0 w0
    where b: "solve_before_engine E jac x r solver w = Inr (s0, w0)" by blast
  from solve_before_engine_trace [OF b] b show ?thesis by blast
qed

lemma solve_matvec_solver_completes:
  "\<exists>res solver' w'.
     solve (example_engine code) example_jac example_x example_r matvec_solver example_world
       = Inr (res, solver', w')"
  by (simp add: solve_unfold matvec_solver_def)

text \<open>
  The input on which C7 fails: a solver with a combined-matvec function and no other
  form. The solve completes and registers the residual callback, and it registers no
  Jacobian callback, although the Jacobian callback, when it is called on this solver,
  calls the combined-matvec function.
\<close>

theorem matvec_only_registers_no_jacobian:
  "matvec matvec_solver \<noteq> None
   \<and> (\<exists>s0 w0.
        solve_before_engine (example_engine 2) example_jac example_x example_r
          matvec_solver example_world = Inr (s0, w0)
        \<and> filter registers_residual (trace w0) = [snes_call (SNESSetFunction 3)]
        \<and> filter registers_jacobian (trace w0) = [])
   \<and> (\<exists>solver' w'.
        libmesh_petsc_snes_jacobian (\<lambda>ev. 0) example_snes 2 6 6 matvec_solver example_world
          = Inr (0, solver', w')
        \<and> user_calls (trace w') = [matvec_function])"
proof -
  from solve_matvec_solver_completes [of 2] obtain res solver' w'
    where s: "solve (example_engine 2) example_jac example_x example_r
                matvec_solver example_world = Inr (res, solver', w')"
    by blast
  have m: "matvec matvec_solver \<noteq> None" "jacobian matvec_solver = None"
    "jacobian_object matvec_solver = None" "residual_and_jacobian_object matvec_solver = None"
    by (simp_all add: matvec_solver_def unconfigured_solver_def PetscNonlinearSolver_ctor_def)
  have t: "trace example_world = []" by (simp add: example_world_def)
  have r: "vec example_r = 3" by (simp add: example_r_def PetscVector_wrap_def)
  from solve_registers_callbacks [OF s] m t r
  have a: "\<exists>s0 w0.
        solve_before_engine (example_engine 2) example_jac example_x example_r
          matvec_solver example_world = Inr (s0, w0)
        \<and> filter registers_residual (trace w0) = [snes_call (SNESSetFunction 3)]
        \<and> filter registers_jacobian (trace w0) = []"
    by auto
  have b: "\<exists>solver' w'.
        libmesh_petsc_snes_jacobian (\<lambda>ev. 0) example_snes 2 6 6 matvec_solver example_world
          = Inr (0, solver', w')
        \<and> user_calls (trace w') = [matvec_function]"
    by (simp add: libmesh_petsc_snes_jacobian_def chk_success localize_through_swap_eq Let_def
          matvec_solver_def unconfigured_solver_def PetscNonlinearSolver_ctor_def
          example_world_def enforce_constraints_exactly_def PetscMatrix_zero_def
          PetscMatrix_close_def call_def invoke_def)
  from m(1) a b show ?thesis by blast
qed

text \<open>
  Through \<^verbatim>\<open>solve\<close> the branch of the Jacobian callback that calls the combined-matvec
  function is never taken: whenever the test of line 607 registers the callback, a
  call of the callback that returns has called one of the other three forms.
\<close>

lemma jacobian_callback_matvec_branch_unreachable:
  assumes "jacobian solver \<noteq> None \<or> jacobian_object solver \<noteq> None
           \<or> residual_and_jacobian_object solver \<noteq> None"
    and "libmesh_petsc_snes_jacobian ierr snes x jac pc solver w = Inr (code, solver', w')"
  shows "\<exists>k. user_calls (trace w') = user_calls (trace w) @ [k] \<and> k \<noteq> matvec_function"
  using assms
  by (auto simp: libmesh_petsc_snes_jacobian_def bind_e_eq_Inr chk_eq_Inr
        localize_through_swap_eq Let_def PetscMatrix_close_def
        split: if_splits option.splits)

end
